theory Spec2Isabelle
  imports Complex_Main "HOL-Library.Word" "HOL-Library.Log_Nat"
begin

section \<open>Data model of vimg\<close>

text \<open>
  Conventions of the embedding.
  \<^item> Go \<open>int\<close> values (64 bit) are HOL integers; box sizes stay far below the machine
    bounds, so no wrap-around is written out.  Go integer division truncates towards zero
    and is \<open>go_div\<close>.  The fields \<open>Xsize\<close> and \<open>Ysize\<close> of a libvips handle are C \<open>int\<close>
    values, 32-bit words read through \<open>sint\<close>.
  \<^item> A \<open>float64\<close> or \<open>float32\<close> value is the real number it stands for.  Every
    floating-point operation of the source is the exact operation followed by rounding to
    the format, to nearest with ties to even: \<open>f64\<close> rounds to 53 significant bits, \<open>f32\<close>
    to 24.  Each operation rounds on its own (no fused multiply-add, as on amd64).  The
    exponent range is not bounded: there is no overflow, no subnormal number, no infinity
    and no NaN, and a division by zero has the value 0 that HOL gives it; the theorems use
    a quotient only where the divisor is not zero.  Comparisons, \<open>math.Min\<close>, \<open>math.Max\<close>,
    \<open>math.Floor\<close> and \<open>math.Ceil\<close> are exact.  A conversion \<open>int(f)\<close> or \<open>C.int(f)\<close> is
    \<open>go_int\<close> (truncation towards zero).
  \<^item> A Go \<open>error\<close> result is an \<open>error option\<close> (\<open>None\<close> is \<open>nil\<close>); a nil dereference
    or an index out of range is the error value \<open>Panic\<close>.
  \<^item> The libvips handle \<open>*C.VipsImage\<close> is a \<open>CImage option\<close> (\<open>None\<close> is the nil pointer).
\<close>

text \<open>
  The declarations of \<open>Options\<close>, \<open>Angle\<close>, \<open>Gravity\<close>, \<open>Position\<close>, \<open>Direction\<close>,
  \<open>Interpolator\<close>, \<open>Color\<close>, \<open>Watermark\<close> and \<open>WatermarkImage\<close> are not among the source files;
  only their uses are.  The types below carry the fields and constants that the code
  reads.  A field of a nested struct carries a prefix, since field names are global here.
\<close>

text \<open>
  Modelled from the spec: the type \<open>Angle\<close> and its constants, whose declaration is
  missing.  A rotation is a number of degrees, one of 0, 90, 180 and 270.
\<close>

type_synonym Angle = int

definition D0 :: Angle where "D0 = 0"
definition D90 :: Angle where "D90 = 90"
definition D180 :: Angle where "D180 = 180"
definition D270 :: Angle where "D270 = 270"

text \<open>\<open>ImageType\<close> and its constants, lines 725-747.\<close>

datatype ImageType = UNKNOWN | JPEG | WEBP | PNG | TIFF | GIF | PDF | SVG | MAGICK

text \<open>
  Modelled from the spec: the enumeration \<open>Gravity\<close>, whose declaration is missing (Center,
  North, South, East, West, Smart).
\<close>

datatype Gravity =
  GravityCentre | GravityNorth | GravityEast | GravitySouth | GravityWest | GravitySmart

text \<open>
  Modelled from the spec: the alignment enumeration \<open>Position\<close>, whose declaration is missing
  (Left, Center, Right horizontally and Top, Center, Bottom vertically).
\<close>

datatype Position =
  PositionLeft | PositionCentre | PositionRight | PositionTop | PositionBottom

text \<open>
  Modelled from the spec: the axis of a flip, whose declaration is missing; the code names
  \<open>Vertical\<close> and \<open>Horizontal\<close>.
\<close>

datatype Direction = Horizontal | Vertical

text \<open>
  Modelled from the spec: the interpolator kind, whose declaration is missing; its four
  constants are the values of \<open>imageInterpolatorToID\<close>, lines 838-843.
\<close>

datatype Interpolator = Bicubic | Bilinear | Nohalo | Nearest

text \<open>
  The errors of the pipeline: the two error variables of lines 35-38, the messages that
  the code builds with \<open>errors.New\<close>, the message of the engine read by \<open>catchVipsError\<close>, and
  a run-time panic.
\<close>

datatype error =
    ErrVipsImageNotValidPointer
  | ErrExtractAreaParamsRequired
  | ErrUnsupportedOutputType
  | ErrMaxSizeExceeded
  | ErrBufferEmpty
  | ErrUnsupportedFormat
  | EngineError string
  | Panic

type_synonym bytes = "8 word list"

text \<open>Modelled from the spec: the struct \<open>Color\<close> (RGBA), whose declaration is missing.\<close>

record Color =
  R :: "8 word"
  G :: "8 word"
  B :: "8 word"
  A :: "8 word"

text \<open>
  Modelled from the spec: the extract region of \<open>Options\<close> (left, top, width, height;
  absolute or relative to the source in percent), whose declaration is missing.
\<close>

record ExtractArea =
  ex_Left :: real
  ex_Top :: real
  ex_Width :: real
  ex_Height :: real
  ex_Relative :: bool

text \<open>
  Modelled from the spec: the effect parameters, whose declarations are missing: Gaussian
  blur (sigma, min-amplitude) and sharpen (sigma, x1, y2, y3, m1, m2).
\<close>

record GaussianBlur =
  gb_Sigma :: real
  gb_MinAmpl :: real

record Sharpen =
  sh_Sigma :: real
  sh_X1 :: real
  sh_Y2 :: real
  sh_Y3 :: real
  sh_M1 :: real
  sh_M2 :: real

text \<open>
  Modelled from the spec: the text watermark (text, font, dims, DPI, margin, alignment,
  offsets, relative flag, background colour), whose declaration is missing.
\<close>

record Watermark =
  wm_Text :: string
  wm_Font :: string
  wm_Width :: int
  wm_DPI :: int
  wm_Margin :: int
  wm_NoReplicate :: bool
  wm_Relative :: bool
  wm_Background :: Color
  wm_TextAlign :: int
  wm_HAlign :: Position
  wm_VAlign :: Position
  wm_HOffset :: real
  wm_VOffset :: real

text \<open>
  Modelled from the spec: the image watermark (source bytes, opacity, blend mode,
  alignment, offsets, relative flag) with the width that \<open>vipsDrawWatermark\<close> reads; its
  declaration is missing.
\<close>

record WatermarkImage =
  wi_Buf :: bytes
  wi_Opacity :: real
  wi_BlendMode :: int
  wi_Relative :: bool
  wi_Width :: real
  wi_HAlign :: Position
  wi_VAlign :: Position
  wi_HOffset :: real
  wi_VOffset :: real

text \<open>
  Modelled from the spec: \<open>Options\<close>, the transformation options, whose declaration is
  missing.  The fields are those that \<open>Process\<close> and the functions it calls read or write;
  \<open>OutType\<close> is the field \<open>Type\<close>.
\<close>

record Options =
  Width :: int
  Height :: int
  Quality :: int
  Compression :: int
  Zoom :: int
  Crop :: bool
  SmartCrop :: bool
  Enlarge :: bool
  Embed :: bool
  Flip :: bool
  Flop :: bool
  Force :: bool
  MaintainAspect :: bool
  NoAutoRotate :: bool
  Trim :: bool
  Rotate :: Angle
  Gravity :: Gravity
  Extend :: int
  Background :: Color
  Threshold :: real
  Gamma :: real
  OutType :: ImageType
  Interpretation :: int
  Interpolator :: Interpolator
  Extract :: ExtractArea
  GaussianBlur :: GaussianBlur
  Sharpen :: Sharpen
  Watermark :: Watermark
  WatermarkImage :: WatermarkImage

text \<open>
  What the code reads from a live libvips handle: its size, and what the queries
  \<open>vips_exif_orientation\<close> and \<open>has_alpha_channel\<close> answer for it.
\<close>

record CImage =
  Xsize :: "32 word"
  Ysize :: "32 word"
  exif_orientation :: int
  has_alpha_channel :: bool

text \<open>The entry points of the engine that the pipeline calls.\<close>

datatype EngineOp =
    OpRotate | OpFlip | OpZoom | OpWatermarkText | OpInitImage | OpSave | OpExtract
  | OpSmartCrop | OpFindTrim | OpShrinkJpeg | OpShrinkWebp | OpShrink | OpResize | OpEmbed
  | OpGaussBlur | OpSharpen | OpWatermarkImage | OpFlatten | OpGamma

text \<open>
  \<open>VipsImage\<close> of the source, with one ghost field: \<open>Calls\<close> lists the engine entry
  points invoked so far, oldest first.
\<close>

record VipsImage =
  Buffer :: bytes
  Image :: "CImage option"
  ImgType :: ImageType
  Options :: Options
  Calls :: "EngineOp list"

definition go_div :: "int \<Rightarrow> int \<Rightarrow> int" where
  "go_div a b = sgn a * sgn b * (\<bar>a\<bar> div \<bar>b\<bar>)"

definition go_int :: "real \<Rightarrow> int" where
  "go_int f = (if f < 0 then \<lceil>f\<rceil> else \<lfloor>f\<rfloor>)"

section \<open>Floating-point arithmetic\<close>

text \<open>The integer nearest to \<open>q\<close>; of two that are equally near, the even one.\<close>

definition round_even :: "real \<Rightarrow> int" where
  "round_even q =
     (let n = \<lfloor>q\<rfloor>; r = q - real_of_int n
      in if r < 1 / 2 then n else if 1 / 2 < r then n + 1 else if even n then n else n + 1)"

text \<open>
  The binary exponent of a number \<open>x\<close> other than 0: the integer \<open>e\<close> with
  \<open>2 powi e \<le> \<bar>x\<bar>\<close> and \<open>\<bar>x\<bar> < 2 powi (e + 1)\<close>.
\<close>

definition expo :: "real \<Rightarrow> int" where
  "expo x = (if 1 \<le> \<bar>x\<bar> then bitlen \<lfloor>\<bar>x\<bar>\<rfloor> - 1 else - bitlen (\<lceil>1 / \<bar>x\<bar>\<rceil> - 1))"

text \<open>
  Rounding to \<open>p\<close> significant bits: the nearest multiple of the unit in the last place,
  \<open>2 powi (e - p + 1)\<close>.
\<close>

definition fl :: "nat \<Rightarrow> real \<Rightarrow> real" where
  "fl p x =
     (if x = 0 then 0
      else (let u = 2 powi (expo x - int p + 1) in u * real_of_int (round_even (x / u))))"

text \<open>The roundings of \<open>float64\<close> (binary64) and of \<open>float32\<close> (binary32).\<close>

definition f64 :: "real \<Rightarrow> real" where
  "f64 x = fl 53 x"

definition f32 :: "real \<Rightarrow> real" where
  "f32 x = fl 24 x"

text \<open>The conversions \<open>float64(n)\<close> and \<open>float32(n)\<close> of an integer.\<close>

definition float64 :: "int \<Rightarrow> real" where
  "float64 n = f64 (real_of_int n)"

definition float32 :: "int \<Rightarrow> real" where
  "float32 n = f32 (real_of_int n)"

section \<open>Geometry calculator\<close>

text \<open>\<open>calculateCrop\<close>, vipsimage.go lines 597-617.\<close>

definition calculateCrop :: "int \<Rightarrow> int \<Rightarrow> int \<Rightarrow> int \<Rightarrow> Gravity \<Rightarrow> int \<times> int" where
  "calculateCrop inWidth inHeight outWidth outHeight gravity =
     (case gravity of
        GravityNorth \<Rightarrow> (go_div (inWidth - outWidth + 1) 2, 0)
      | GravityEast \<Rightarrow> (inWidth - outWidth, go_div (inHeight - outHeight + 1) 2)
      | GravitySouth \<Rightarrow> (go_div (inWidth - outWidth + 1) 2, inHeight - outHeight)
      | GravityWest \<Rightarrow> (0, go_div (inHeight - outHeight + 1) 2)
      | _ \<Rightarrow> (go_div (inWidth - outWidth + 1) 2, go_div (inHeight - outHeight + 1) 2))"

section \<open>Orientation resolver\<close>

text \<open>\<open>vipsExifOrientation\<close>, lines 1347-1352.\<close>

definition vipsExifOrientation :: "VipsImage \<Rightarrow> int \<times> error option" where
  "vipsExifOrientation img =
     (case Image img of
        None \<Rightarrow> (0, Some ErrVipsImageNotValidPointer)
      | Some c \<Rightarrow> (exif_orientation c, None))"

text \<open>
  The \<open>switch o\<close> of \<open>calculateRotationAndFlip\<close> (lines 636-661), in the order of its
  cases: the pair (rotate, flip) it leaves, starting from \<open>(D0, false)\<close>.
\<close>

definition exifSwitch :: "int \<Rightarrow> Angle \<times> bool" where
  "exifSwitch o' =
     (if o' = 6 then (D90, False)
      else if o' = 3 then (D180, False)
      else if o' = 8 then (D270, False)
      else if o' = 2 then (D0, True)
      else if o' = 7 then (D270, True)
      else if o' = 4 then (D180, True)
      else if o' = 5 then (D90, True)
      else (D0, False))"

text \<open>\<open>calculateRotationAndFlip\<close>, lines 624-666.\<close>

definition calculateRotationAndFlip :: "bool \<Rightarrow> VipsImage \<Rightarrow> Angle \<times> bool \<times> error option" where
  "calculateRotationAndFlip additive' img =
     (let angle = Rotate (Options img) in
      if angle > 0 \<and> \<not> additive' then (D0, False, None)
      else
        (case vipsExifOrientation img of
           (_, Some err) \<Rightarrow> (D0, False, Some err)
         | (o', None) \<Rightarrow>
             (let (rotate', flip) = exifSwitch o' in
              (if additive' then rotate' + angle else rotate', flip, None))))"

section \<open>The engine\<close>

text \<open>
  The external collaborators, as parameters: the constants of libvips and of the missing
  declarations (\<open>MaxSize\<close>, the default \<open>Quality\<close>, \<open>ColorBlack\<close>, ...), the queries of the
  capability registry, and one function for every bridge call.  A bridge call answers \<open>Inl msg\<close> for a
  non-zero status (\<open>msg\<close> is what \<open>catchVipsError\<close> reads back) and \<open>Inr\<close> of its output
  otherwise.
\<close>

record Engine =
  VipsMajorVersion :: int
  VipsMinorVersion :: int
  MaxSize :: int
  DefaultQuality :: int
  InterpretationSRGB :: int
  WatermarkFont :: string
  ColorBlack :: Color
  ExtendBackground :: int
  VipsIsTypeSupported :: "ImageType \<Rightarrow> bool"
  IsSVGImage :: "bytes \<Rightarrow> bool"
  isMagickBuffer :: "bytes \<Rightarrow> bool"
  interpolator_window_size :: "Interpolator \<Rightarrow> real"
  vips_init_image :: "bytes \<Rightarrow> ImageType \<Rightarrow> string + CImage"
  vips_rotate_fill :: "CImage \<Rightarrow> Angle \<Rightarrow> Color \<Rightarrow> string + CImage"
  vips_flip_bridge :: "CImage \<Rightarrow> Direction \<Rightarrow> string + CImage"
  vips_zoom_bridge :: "CImage \<Rightarrow> int \<Rightarrow> string + CImage"
  vips_watermark :: "CImage \<Rightarrow> Watermark \<Rightarrow> Watermark \<Rightarrow> string + CImage"
  vips_save_bridge :: "CImage \<Rightarrow> ImageType \<Rightarrow> string + bytes"
  vips_extract_area_bridge :: "CImage \<Rightarrow> int \<Rightarrow> int \<Rightarrow> int \<Rightarrow> int \<Rightarrow> string + CImage"
  vips_smartcrop_bridge :: "CImage \<Rightarrow> int \<Rightarrow> int \<Rightarrow> string + CImage"
  vips_find_trim_bridge :: "CImage \<Rightarrow> Color \<Rightarrow> real \<Rightarrow> string + (int \<times> int \<times> int \<times> int)"
  vips_jpegload_buffer_shrink :: "bytes \<Rightarrow> int \<Rightarrow> string + CImage"
  vips_webpload_buffer_shrink :: "bytes \<Rightarrow> int \<Rightarrow> string + CImage"
  vips_shrink_bridge :: "CImage \<Rightarrow> int \<Rightarrow> string + CImage"
  vips_resize_bridge :: "CImage \<Rightarrow> real \<Rightarrow> Interpolator \<Rightarrow> string + CImage"
  vips_embed_bridge :: "CImage \<Rightarrow> int \<Rightarrow> int \<Rightarrow> int \<Rightarrow> int \<Rightarrow> int \<Rightarrow> Color \<Rightarrow> string + CImage"
  vips_gaussblur_bridge :: "CImage \<Rightarrow> real \<Rightarrow> real \<Rightarrow> string + CImage"
  vips_sharpen_bridge :: "CImage \<Rightarrow> Sharpen \<Rightarrow> string + CImage"
  vips_watermark_image :: "CImage \<Rightarrow> CImage \<Rightarrow> int \<Rightarrow> int \<Rightarrow> real \<Rightarrow> int \<Rightarrow> string + CImage"
  vips_flatten_background_brigde :: "CImage \<Rightarrow> Color \<Rightarrow> string + CImage"
  vips_gamma_bridge :: "CImage \<Rightarrow> real \<Rightarrow> string + CImage"

text \<open>
  \<open>IsTypeSupported\<close>, lines 1009-1012: the type is a key of \<open>ImageTypes\<close> (every type but
  \<open>UNKNOWN\<close>) and the registry, which caches the answers of \<open>VipsIsTypeSupported\<close>, says it
  can be loaded.
\<close>

definition IsTypeSupported :: "Engine \<Rightarrow> ImageType \<Rightarrow> bool" where
  "IsTypeSupported E t = (t \<noteq> UNKNOWN \<and> VipsIsTypeSupported E t)"

text \<open>\<open>vipsWindowSize\<close>, lines 1368-1372, applied to \<open>Interpolator.String()\<close>.\<close>

definition vipsWindowSize :: "Engine \<Rightarrow> Interpolator \<Rightarrow> real" where
  "vipsWindowSize E i = interpolator_window_size E i"

section \<open>Scale factor, shrink and residual\<close>

text \<open>\<open>roundFloat\<close>, lines 590-595.\<close>

definition roundFloat :: "real \<Rightarrow> int" where
  "roundFloat f =
     (if f < 0 then go_int (real_of_int \<lceil>f64 (f - 1 / 2)\<rceil>)
      else go_int (real_of_int \<lfloor>f64 (f + 1 / 2)\<rfloor>))"

text \<open>
  \<open>ScaleFactor\<close>, lines 542-588.  The method reads the live handle and the options and
  writes the options: the model takes both and returns the factor with the options as the
  call leaves them.
\<close>

definition ScaleFactor :: "CImage \<Rightarrow> Options \<Rightarrow> real \<times> Options" where
  "ScaleFactor c opts =
     (if \<not> Enlarge opts \<and> \<not> Force opts \<and> sint (Xsize c) < Width opts
         \<and> sint (Ysize c) < Height opts
      then (1, opts)
      else
        (let inWidth = sint (Xsize c);
             inHeight = sint (Ysize c);
             xfactor = f64 (float64 inWidth / float64 (Width opts));
             yfactor = f64 (float64 inHeight / float64 (Height opts))
         in if Width opts > 0 \<and> Height opts > 0 then
              (if Crop opts then (min xfactor yfactor, opts) else (max xfactor yfactor, opts))
            else if Width opts > 0 then
              (if Crop opts then (1, opts\<lparr>Height := inHeight\<rparr>)
               else (xfactor, opts\<lparr>Height := roundFloat (f64 (float64 inHeight / xfactor))\<rparr>))
            else if Height opts > 0 then
              (if Crop opts then (1, opts\<lparr>Width := inWidth\<rparr>)
               else (yfactor, opts\<lparr>Width := roundFloat (f64 (float64 inWidth / yfactor))\<rparr>))
            else (1, opts\<lparr>Width := inWidth, Height := inHeight\<rparr>)))"

text \<open>\<open>calculateShrink\<close>, lines 668-687.\<close>

definition calculateShrink :: "Engine \<Rightarrow> CImage \<Rightarrow> Options \<Rightarrow> int \<times> Options" where
  "calculateShrink E c opts =
     (if \<not> Enlarge opts \<and> \<not> Force opts \<and> sint (Xsize c) < Width opts
         \<and> sint (Ysize c) < Height opts
      then (1, opts)
      else
        (let (factor, opts1) = ScaleFactor c opts;
             windowSize = vipsWindowSize E (Interpolator opts1);
             shrink = (if factor \<ge> 2 \<and> windowSize > 3
                       then real_of_int \<lfloor>f64 (f64 (factor * 3) / windowSize)\<rfloor>
                       else real_of_int \<lfloor>factor\<rfloor>)
         in (go_int (max shrink 1), opts1)))"

text \<open>
  \<open>calculateResidual\<close>, lines 689-695.  Go evaluates the operands of the division from
  left to right: \<open>ScaleFactor\<close> runs on the options that \<open>calculateShrink\<close> left.
\<close>

definition calculateResidual :: "Engine \<Rightarrow> CImage \<Rightarrow> Options \<Rightarrow> real \<times> Options" where
  "calculateResidual E c opts =
     (if \<not> Enlarge opts \<and> \<not> Force opts \<and> sint (Xsize c) < Width opts
         \<and> sint (Ysize c) < Height opts
      then (0, opts)
      else
        (let (shrink, opts1) = calculateShrink E c opts;
             (factor, opts2) = ScaleFactor c opts1
         in (f64 (float64 shrink / factor), opts2)))"

text \<open>\<open>normalizeOperation\<close>, lines 248-253.\<close>

definition normalizeOperation :: "Options \<Rightarrow> Options" where
  "normalizeOperation opts =
     (if \<not> MaintainAspect opts \<and> \<not> Force opts \<and> \<not> Crop opts \<and> \<not> Embed opts \<and> \<not> Enlarge opts
         \<and> Rotate opts = 0 \<and> (Width opts > 0 \<or> Height opts > 0)
      then opts\<lparr>Force := True\<rparr>
      else opts)"

text \<open>\<open>shouldTransformImage\<close>, lines 255-269.\<close>

definition shouldTransformImage :: "CImage \<Rightarrow> Options \<Rightarrow> bool" where
  "shouldTransformImage c opts =
     (let inWidth = sint (Xsize c); inHeight = sint (Ysize c)
      in Force opts \<or> (Width opts > 0 \<and> Width opts < inWidth)
         \<or> (Height opts > 0 \<and> Height opts < inHeight)
         \<or> ex_Width (Extract opts) > 0 \<or> ex_Height (Extract opts) > 0
         \<or> (Height opts > 0 \<and> Height opts > inHeight \<and> Enlarge opts)
         \<or> (Width opts > 0 \<and> Width opts > inWidth \<and> Enlarge opts)
         \<or> Trim opts)"

text \<open>\<open>shouldApplyEffects\<close>, lines 271-274 (\<open>&&\<close> binds tighter than \<open>||\<close>).\<close>

definition shouldApplyEffects :: "Options \<Rightarrow> bool" where
  "shouldApplyEffects opts =
     (gb_Sigma (GaussianBlur opts) > 0 \<or> gb_MinAmpl (GaussianBlur opts) > 0
      \<or> (sh_Sigma (Sharpen opts) > 0 \<and> sh_Y2 (Sharpen opts) > 0)
      \<or> sh_Y3 (Sharpen opts) > 0)"

section \<open>Wrappers of the engine calls\<close>

text \<open>
  The body shared by the wrappers \<open>vipsRotate\<close>, \<open>vipsFlip\<close>, \<open>vipsZoom\<close>, \<open>vipsWatermark\<close>,
  \<open>vipsSmartCrop\<close>, \<open>vipsShrink\<close>, \<open>vipsResize\<close>, \<open>vipsEmbed\<close>, \<open>vipsGaussianBlur\<close>,
  \<open>vipsSharpen\<close> and of \<open>vips_watermark_image\<close> in \<open>vipsDrawWatermark\<close>: the bridge call on
  the live handle; on a non-zero status \<open>catchVipsError\<close> is returned and the handle stays,
  otherwise the old handle is released and replaced.
\<close>

definition bridgeCall :: "EngineOp \<Rightarrow> (CImage \<Rightarrow> string + CImage) \<Rightarrow> CImage \<Rightarrow> VipsImage
    \<Rightarrow> error option \<times> VipsImage" where
  "bridgeCall op f c img =
     (let img1 = img\<lparr>Calls := Calls img @ [op]\<rparr>
      in case f c of
           Inl msg \<Rightarrow> (Some (EngineError msg), img1)
         | Inr image' \<Rightarrow> (None, img1\<lparr>Image := Some image'\<rparr>))"

text \<open>\<open>vipsRotate\<close>, lines 1381-1399.\<close>

definition vipsRotate :: "Engine \<Rightarrow> Angle \<Rightarrow> VipsImage \<Rightarrow> error option \<times> VipsImage" where
  "vipsRotate E angle img =
     (case Image img of
        None \<Rightarrow> (Some ErrVipsImageNotValidPointer, img)
      | Some c \<Rightarrow>
          bridgeCall OpRotate (\<lambda>c. vips_rotate_fill E c angle (Background (Options img))) c img)"

text \<open>\<open>vipsFlip\<close>, lines 1401-1422.\<close>

definition vipsFlip :: "Engine \<Rightarrow> Direction \<Rightarrow> VipsImage \<Rightarrow> error option \<times> VipsImage" where
  "vipsFlip E direction img =
     (case Image img of
        None \<Rightarrow> (Some ErrVipsImageNotValidPointer, img)
      | Some c \<Rightarrow> bridgeCall OpFlip (\<lambda>c. vips_flip_bridge E c direction) c img)"

text \<open>\<open>vipsZoom\<close>, lines 1424-1445.\<close>

definition vipsZoom :: "Engine \<Rightarrow> int \<Rightarrow> VipsImage \<Rightarrow> error option \<times> VipsImage" where
  "vipsZoom E zoom img =
     (case Image img of
        None \<Rightarrow> (Some ErrVipsImageNotValidPointer, img)
      | Some c \<Rightarrow> bridgeCall OpZoom (\<lambda>c. vips_zoom_bridge E c zoom) c img)"

text \<open>
  \<open>vipsWatermark\<close>, lines 1447-1493: the bridge receives the watermark with its defaults
  filled in (\<open>w\<close>) and the one of the options (\<open>o\<close>, read for alignment and offsets).
\<close>

definition vipsWatermark :: "Engine \<Rightarrow> Watermark \<Rightarrow> VipsImage \<Rightarrow> error option \<times> VipsImage" where
  "vipsWatermark E w img =
     (case Image img of
        None \<Rightarrow> (Some ErrVipsImageNotValidPointer, img)
      | Some c \<Rightarrow>
          bridgeCall OpWatermarkText (\<lambda>c. vips_watermark E c w (Watermark (Options img))) c img)"

text \<open>\<open>vipsHasAlpha\<close>, lines 1354-1359.\<close>

definition vipsHasAlpha :: "VipsImage \<Rightarrow> bool \<times> error option" where
  "vipsHasAlpha img =
     (case Image img of
        None \<Rightarrow> (False, Some ErrVipsImageNotValidPointer)
      | Some c \<Rightarrow> (has_alpha_channel c, None))"

text \<open>\<open>vipsFlattenBackground\<close>, lines 1571-1598.\<close>

definition vipsFlattenBackground :: "Engine \<Rightarrow> Color \<Rightarrow> VipsImage \<Rightarrow> error option \<times> VipsImage" where
  "vipsFlattenBackground E background img =
     (case Image img of
        None \<Rightarrow> (Some ErrVipsImageNotValidPointer, img)
      | Some c \<Rightarrow>
          (case vipsHasAlpha img of
             (alpha, e) \<Rightarrow>
               if alpha \<and> e = None
               then bridgeCall OpFlatten (\<lambda>c. vips_flatten_background_brigde E c background) c img
               else (None, img)))"

text \<open>
  \<open>getImageBuffer\<close>, lines 1772-1806: the handle is encoded in the format of \<open>img.Type\<close>
  (JPEG for every type but WEBP, PNG and TIFF) and the bytes are stored in \<open>img.Buffer\<close>.
\<close>

definition getImageBuffer :: "Engine \<Rightarrow> VipsImage \<Rightarrow> (bytes \<times> error option) \<times> VipsImage" where
  "getImageBuffer E img =
     (case Image img of
        None \<Rightarrow> (([], Some ErrVipsImageNotValidPointer), img)
      | Some c \<Rightarrow>
          (let fmt = (case ImgType img of WEBP \<Rightarrow> WEBP | PNG \<Rightarrow> PNG | TIFF \<Rightarrow> TIFF | _ \<Rightarrow> JPEG);
               img1 = img\<lparr>Calls := Calls img @ [OpSave]\<rparr>
           in case vips_save_bridge E c fmt of
                Inl msg \<Rightarrow> (([], Some (EngineError msg)), img1)
              | Inr buf \<Rightarrow> ((buf, None), img1\<lparr>Buffer := buf\<rparr>)))"

text \<open>
  Modelled from the spec: the declaration of \<open>Options\<close> is missing, so is the order of its
  enumerations.  \<open>zeroOptions\<close> is the Go zero value \<open>Options{}\<close>: every number 0, every flag
  false, every string and buffer empty, every enumeration at its first constant.
\<close>

definition zeroColor :: Color where
  "zeroColor = \<lparr>R = 0, G = 0, B = 0, A = 0\<rparr>"

definition zeroOptions :: Options where
  "zeroOptions =
     \<lparr>Width = 0, Height = 0, Quality = 0, Compression = 0, Zoom = 0, Crop = False,
      SmartCrop = False, Enlarge = False, Embed = False, Flip = False, Flop = False,
      Force = False, MaintainAspect = False, NoAutoRotate = False, Trim = False, Rotate = 0,
      Gravity = GravityCentre, Extend = 0, Background = zeroColor, Threshold = 0, Gamma = 0,
      OutType = UNKNOWN, Interpretation = 0, Interpolator = Bicubic,
      Extract = \<lparr>ex_Left = 0, ex_Top = 0, ex_Width = 0, ex_Height = 0, ex_Relative = False\<rparr>,
      GaussianBlur = \<lparr>gb_Sigma = 0, gb_MinAmpl = 0\<rparr>,
      Sharpen = \<lparr>sh_Sigma = 0, sh_X1 = 0, sh_Y2 = 0, sh_Y3 = 0, sh_M1 = 0, sh_M2 = 0\<rparr>,
      Watermark = \<lparr>wm_Text = [], wm_Font = [], wm_Width = 0, wm_DPI = 0, wm_Margin = 0,
        wm_NoReplicate = False, wm_Relative = False, wm_Background = zeroColor,
        wm_TextAlign = 0, wm_HAlign = PositionLeft, wm_VAlign = PositionLeft,
        wm_HOffset = 0, wm_VOffset = 0\<rparr>,
      WatermarkImage = \<lparr>wi_Buf = [], wi_Opacity = 0, wi_BlendMode = 0, wi_Relative = False,
        wi_Width = 0, wi_HAlign = PositionLeft, wi_VAlign = PositionLeft,
        wi_HOffset = 0, wi_VOffset = 0\<rparr>\<rparr>"

text \<open>
  \<open>vipsExtract\<close>, lines 1808-1846.  The extracted area is a new \<open>VipsImage\<close> of type JPEG
  with zero options, whose buffer is encoded at once; the receiver keeps its handle.  The
  result is the new image (\<open>None\<close> is nil) with the error, and the receiver, whose ghost
  field has the calls made.
\<close>

definition vipsExtract :: "Engine \<Rightarrow> real \<Rightarrow> real \<Rightarrow> real \<Rightarrow> real \<Rightarrow> VipsImage
    \<Rightarrow> (VipsImage option \<times> error option) \<times> VipsImage" where
  "vipsExtract E left top' width height img =
     (case Image img of
        None \<Rightarrow> ((None, Some ErrVipsImageNotValidPointer), img)
      | Some c \<Rightarrow>
          if width > float32 (MaxSize E) \<or> height > float32 (MaxSize E)
          then ((None, Some ErrMaxSizeExceeded), img)
          else
            (let srcX = float32 (sint (Xsize c));
                 srcY = float32 (sint (Ysize c));
                 rel = ex_Relative (Extract (Options img));
                 top1 = (if rel then f32 (srcY * f32 (top' / 100)) else top');
                 left1 = (if rel then f32 (srcX * f32 (left / 100)) else left);
                 height1 = (if rel then f32 (srcY * f32 (height / 100)) else height);
                 width1 = (if rel then f32 (srcX * f32 (width / 100)) else width);
                 img1 = img\<lparr>Calls := Calls img @ [OpExtract]\<rparr>
             in case vips_extract_area_bridge E c (go_int left1) (go_int top1)
                       (go_int width1) (go_int height1) of
                  Inl msg \<Rightarrow> ((None, Some (EngineError msg)), img1)
                | Inr image' \<Rightarrow>
                    (let i = \<lparr>Buffer = [], Image = Some image', ImgType = JPEG,
                               Options = zeroOptions, Calls = Calls img1\<rparr>
                     in case getImageBuffer E i of
                          ((_, Some e), i1) \<Rightarrow> ((None, Some e), img1\<lparr>Calls := Calls i1\<rparr>)
                        | ((_, None), i1) \<Rightarrow> ((Some i1, None), img1\<lparr>Calls := Calls i1\<rparr>))))"

text \<open>\<open>vipsSmartCrop\<close>, lines 1848-1870.\<close>

definition vipsSmartCrop :: "Engine \<Rightarrow> int \<Rightarrow> int \<Rightarrow> VipsImage \<Rightarrow> error option \<times> VipsImage" where
  "vipsSmartCrop E width height img =
     (case Image img of
        None \<Rightarrow> (Some ErrVipsImageNotValidPointer, img)
      | Some c \<Rightarrow>
          if width > MaxSize E \<or> height > MaxSize E then (Some ErrMaxSizeExceeded, img)
          else bridgeCall OpSmartCrop (\<lambda>c. vips_smartcrop_bridge E c width height) c img)"

text \<open>
  \<open>vipsTrim\<close>, lines 1872-1894: the four results come in the order top, left, width,
  height.
\<close>

definition vipsTrim :: "Engine \<Rightarrow> Color \<Rightarrow> real \<Rightarrow> VipsImage
    \<Rightarrow> (int \<times> int \<times> int \<times> int \<times> error option) \<times> VipsImage" where
  "vipsTrim E background threshold img =
     (case Image img of
        None \<Rightarrow> ((0, 0, 0, 0, Some ErrVipsImageNotValidPointer), img)
      | Some c \<Rightarrow>
          (let img1 = img\<lparr>Calls := Calls img @ [OpFindTrim]\<rparr>
           in case vips_find_trim_bridge E c background threshold of
                Inl msg \<Rightarrow> ((0, 0, 0, 0, Some (EngineError msg)), img1)
              | Inr (top', left, width, height) \<Rightarrow> ((top', left, width, height, None), img1)))"

text \<open>
  \<open>vipsShrinkJpeg\<close>, lines 1896-1918, and \<open>vipsShrinkWebp\<close>, lines 1920-1942: the buffer is
  decoded again with shrink-on-load; \<open>&img.Buffer[0]\<close> panics on an empty buffer.
\<close>

definition vipsShrinkJpeg :: "Engine \<Rightarrow> int \<Rightarrow> VipsImage \<Rightarrow> error option \<times> VipsImage" where
  "vipsShrinkJpeg E shrink img =
     (case Image img of
        None \<Rightarrow> (Some ErrVipsImageNotValidPointer, img)
      | Some c \<Rightarrow>
          if Buffer img = [] then (Some Panic, img)
          else bridgeCall OpShrinkJpeg (\<lambda>c. vips_jpegload_buffer_shrink E (Buffer img) shrink) c img)"

definition vipsShrinkWebp :: "Engine \<Rightarrow> int \<Rightarrow> VipsImage \<Rightarrow> error option \<times> VipsImage" where
  "vipsShrinkWebp E shrink img =
     (case Image img of
        None \<Rightarrow> (Some ErrVipsImageNotValidPointer, img)
      | Some c \<Rightarrow>
          if Buffer img = [] then (Some Panic, img)
          else bridgeCall OpShrinkWebp (\<lambda>c. vips_webpload_buffer_shrink E (Buffer img) shrink) c img)"

text \<open>\<open>vipsShrink\<close>, lines 1944-1964.\<close>

definition vipsShrink :: "Engine \<Rightarrow> int \<Rightarrow> VipsImage \<Rightarrow> error option \<times> VipsImage" where
  "vipsShrink E shrink img =
     (case Image img of
        None \<Rightarrow> (Some ErrVipsImageNotValidPointer, img)
      | Some c \<Rightarrow> bridgeCall OpShrink (\<lambda>c. vips_shrink_bridge E c shrink) c img)"

text \<open>\<open>vipsResize\<close>, lines 1966-1988.\<close>

definition vipsResize :: "Engine \<Rightarrow> real \<Rightarrow> Interpolator \<Rightarrow> VipsImage \<Rightarrow> error option \<times> VipsImage" where
  "vipsResize E scale i img =
     (case Image img of
        None \<Rightarrow> (Some ErrVipsImageNotValidPointer, img)
      | Some c \<Rightarrow> bridgeCall OpResize (\<lambda>c. vips_resize_bridge E c scale i) c img)"

text \<open>\<open>vipsEmbed\<close>, lines 2012-2039.\<close>

definition vipsEmbed :: "Engine \<Rightarrow> int \<Rightarrow> int \<Rightarrow> int \<Rightarrow> int \<Rightarrow> int \<Rightarrow> Color \<Rightarrow> VipsImage
    \<Rightarrow> error option \<times> VipsImage" where
  "vipsEmbed E left top' width height extend' background img =
     (case Image img of
        None \<Rightarrow> (Some ErrVipsImageNotValidPointer, img)
      | Some c \<Rightarrow>
          (let extend1 = (if extend' > 5 then ExtendBackground E else extend')
           in bridgeCall OpEmbed
                (\<lambda>c. vips_embed_bridge E c left top' width height extend1 background) c img))"

text \<open>\<open>vipsGaussianBlur\<close>, lines 2121-2143.\<close>

definition vipsGaussianBlur :: "Engine \<Rightarrow> GaussianBlur \<Rightarrow> VipsImage \<Rightarrow> error option \<times> VipsImage" where
  "vipsGaussianBlur E g img =
     (case Image img of
        None \<Rightarrow> (Some ErrVipsImageNotValidPointer, img)
      | Some c \<Rightarrow>
          (let sigma = (if gb_Sigma g = 0 then 1 else gb_Sigma g)
           in bridgeCall OpGaussBlur (\<lambda>c. vips_gaussblur_bridge E c sigma (gb_MinAmpl g)) c img))"

text \<open>\<open>vipsSharpen\<close>, lines 2145-2165.\<close>

definition vipsSharpen :: "Engine \<Rightarrow> Sharpen \<Rightarrow> VipsImage \<Rightarrow> error option \<times> VipsImage" where
  "vipsSharpen E sh img =
     (case Image img of
        None \<Rightarrow> (Some ErrVipsImageNotValidPointer, img)
      | Some c \<Rightarrow> bridgeCall OpSharpen (\<lambda>c. vips_sharpen_bridge E c sh) c img)"

text \<open>
  \<open>vipsGamma\<close>, lines 2304-2318.  It has no nil check: the bridge would be handed the nil
  pointer.
\<close>

definition vipsGamma :: "Engine \<Rightarrow> real \<Rightarrow> VipsImage \<Rightarrow> error option \<times> VipsImage" where
  "vipsGamma E gamma img =
     (case Image img of
        None \<Rightarrow> (Some Panic, img)
      | Some c \<Rightarrow> bridgeCall OpGamma (\<lambda>c. vips_gamma_bridge E c gamma) c img)"

section \<open>Loading an image\<close>

text \<open>
  \<open>vipsImageType\<close>, lines 2066-2098.  \<open>isMagickBuffer\<close> stands for the test that the loader
  name found by \<open>readImageType\<close> ends in "MagickBuffer".
\<close>

definition vipsImageType :: "Engine \<Rightarrow> bytes \<Rightarrow> ImageType" where
  "vipsImageType E buf =
     (if length buf < 12 then UNKNOWN
      else if buf ! 0 = 0xFF \<and> buf ! 1 = 0xD8 \<and> buf ! 2 = 0xFF then JPEG
      else if IsTypeSupported E GIF \<and> buf ! 0 = 0x47 \<and> buf ! 1 = 0x49 \<and> buf ! 2 = 0x46
        then GIF
      else if buf ! 0 = 0x89 \<and> buf ! 1 = 0x50 \<and> buf ! 2 = 0x4E \<and> buf ! 3 = 0x47 then PNG
      else if IsTypeSupported E TIFF \<and>
          ((buf ! 0 = 0x49 \<and> buf ! 1 = 0x49 \<and> buf ! 2 = 0x2A \<and> buf ! 3 = 0x0)
           \<or> (buf ! 0 = 0x4D \<and> buf ! 1 = 0x4D \<and> buf ! 2 = 0x0 \<and> buf ! 3 = 0x2A))
        then TIFF
      else if IsTypeSupported E PDF \<and> buf ! 0 = 0x25 \<and> buf ! 1 = 0x50 \<and> buf ! 2 = 0x44
          \<and> buf ! 3 = 0x46
        then PDF
      else if IsTypeSupported E WEBP \<and> buf ! 8 = 0x57 \<and> buf ! 9 = 0x45 \<and> buf ! 10 = 0x42
          \<and> buf ! 11 = 0x50
        then WEBP
      else if IsTypeSupported E SVG \<and> IsSVGImage E buf then SVG
      else if IsTypeSupported E MAGICK \<and> isMagickBuffer E buf then MAGICK
      else UNKNOWN)"

text \<open>\<open>vipsRead\<close>, lines 1495-1534.\<close>

definition vipsRead :: "Engine \<Rightarrow> bytes \<Rightarrow> VipsImage \<Rightarrow> error option \<times> VipsImage" where
  "vipsRead E buf img =
     (let img1 = img\<lparr>Buffer := buf\<rparr>;
          imageType = vipsImageType E (Buffer img1)
      in if imageType = UNKNOWN then (Some ErrUnsupportedFormat, img1)
         else
           (let img2 = img1\<lparr>Calls := Calls img1 @ [OpInitImage]\<rparr>
            in case vips_init_image E (Buffer img2) imageType of
                 Inl msg \<Rightarrow> (Some (EngineError msg), img2\<lparr>Buffer := []\<rparr>)
               | Inr image' \<Rightarrow> (None, img2\<lparr>Image := Some image', ImgType := imageType\<rparr>)))"

text \<open>\<open>Load\<close>, lines 62-74.\<close>

definition Load :: "Engine \<Rightarrow> bytes \<Rightarrow> VipsImage \<Rightarrow> error option \<times> VipsImage" where
  "Load E buf img =
     (if length buf = 0 then (Some ErrBufferEmpty, img) else vipsRead E buf img)"

text \<open>
  \<open>NewVipsImage\<close>, lines 25-33.  \<open>AquireVipsImage\<close> hands out a pooled object: a reset one
  (lines 76-81), or a new one whose buffer is allocated and overwritten by \<open>Load\<close>.  The
  last argument is the ghost list of the calls made so far; it comes back with the result.
\<close>

definition NewVipsImage :: "Engine \<Rightarrow> bytes \<Rightarrow> Options \<Rightarrow> EngineOp list
    \<Rightarrow> (VipsImage option \<times> error option) \<times> EngineOp list" where
  "NewVipsImage E buf opt calls =
     (let ret = \<lparr>Buffer = [], Image = None, ImgType = UNKNOWN, Options = zeroOptions,
                  Calls = calls\<rparr>
      in case Load E buf ret of
           (Some err, ret1) \<Rightarrow> ((None, Some err), Calls ret1)
         | (None, ret1) \<Rightarrow> ((Some (ret1\<lparr>Options := opt\<rparr>), None), Calls ret1))"

section \<open>The stages of the pipeline\<close>

text \<open>\<open>applyDefaults\<close>, lines 194-208.\<close>

definition applyDefaults :: "Engine \<Rightarrow> VipsImage \<Rightarrow> VipsImage" where
  "applyDefaults E img =
     (let o1 = Options img;
          o2 = (if Quality o1 = 0 then o1\<lparr>Quality := DefaultQuality E\<rparr> else o1);
          o3 = (if Compression o2 = 0 then o2\<lparr>Compression := 6\<rparr> else o2);
          o4 = (if OutType o3 = UNKNOWN then o3\<lparr>OutType := ImgType img\<rparr> else o3);
          o5 = (if Interpretation o4 = 0 then o4\<lparr>Interpretation := InterpretationSRGB E\<rparr>
                else o4)
      in img\<lparr>Options := o5\<rparr>)"

text \<open>
  \<open>rotateAndFlipImage\<close>, lines 388-419.  The three engine calls assign the same variable
  \<open>err\<close> one after the other, with no test in between; the last assignment is returned.
\<close>

definition rotateAndFlipImage :: "Engine \<Rightarrow> bool \<Rightarrow> VipsImage
    \<Rightarrow> (bool \<times> error option) \<times> VipsImage" where
  "rotateAndFlipImage E additive' img =
     (case calculateRotationAndFlip additive' img of
        (_, _, Some err) \<Rightarrow> ((False, Some err), img)
      | (rotation, flip, None) \<Rightarrow>
          (let img1 =
                 (if \<not> NoAutoRotate (Options img)
                  then
                    (let opts1 = (if flip \<and> Flip (Options img)
                                  then (Options img)\<lparr>Flip := False\<rparr> else Options img)
                     in img\<lparr>Options := opts1\<lparr>Rotate := rotation\<rparr>\<rparr>)
                  else img);
               (rotated1, err1, img2) =
                 (if Rotate (Options img1) > 0
                  then (case vipsRotate E (Rotate (Options img1)) img1 of
                          (e, i) \<Rightarrow> (True, e, i))
                  else (False, None, img1));
               (rotated2, err2, img3) =
                 (if Flip (Options img2)
                  then (case vipsFlip E Vertical img2 of (e, i) \<Rightarrow> (True, e, i))
                  else (rotated1, err1, img2));
               (rotated3, err3, img4) =
                 (if Flop (Options img3)
                  then (case vipsFlip E Horizontal img3 of (e, i) \<Rightarrow> (True, e, i))
                  else (rotated2, err2, img3))
           in ((rotated3, err3), img4)))"

text \<open>\<open>zoomImage\<close>, lines 481-490.\<close>

definition zoomImage :: "Engine \<Rightarrow> VipsImage \<Rightarrow> error option \<times> VipsImage" where
  "zoomImage E img =
     (if Zoom (Options img) \<noteq> 0 then vipsZoom E (Zoom (Options img) + 1) img
      else (None, img))"

text \<open>\<open>shrinkImage\<close>, lines 492-510.\<close>

definition shrinkImage :: "Engine \<Rightarrow> Options \<Rightarrow> real \<Rightarrow> int \<Rightarrow> VipsImage
    \<Rightarrow> (real \<times> error option) \<times> VipsImage" where
  "shrinkImage E opts residual shrink img =
     (case vipsShrink E shrink img of
        (Some err, img1) \<Rightarrow> ((0, Some err), img1)
      | (None, img1) \<Rightarrow>
          (case Image img1 of
             None \<Rightarrow> ((0, Some Panic), img1)
           | Some c \<Rightarrow>
               (let residualx = f64 (float64 (Width opts) / float64 (sint (Xsize c)));
                    residualy = f64 (float64 (Height opts) / float64 (sint (Ysize c)))
                in ((if Crop opts then max residualx residualy else min residualx residualy,
                     None), img1))))"

text \<open>\<open>shrinkOnLoad\<close>, lines 512-540.\<close>

definition shrinkOnLoad :: "Engine \<Rightarrow> VipsImage \<Rightarrow> (real \<times> error option) \<times> VipsImage" where
  "shrinkOnLoad E img =
     (case Image img of
        None \<Rightarrow> ((0, Some Panic), img)
      | Some c \<Rightarrow>
          (let (shrink, opts1) = calculateShrink E c (Options img);
               (factor, opts2) = ScaleFactor c opts1;
               img1 = img\<lparr>Options := opts2\<rparr>
           in if ImgType img1 = JPEG \<and> shrink \<ge> 2 then
                (let (factor1, shrinkOnLoad1) =
                       (if shrink \<ge> 8 then (f64 (factor / 8), 8)
                        else if shrink \<ge> 4 then (f64 (factor / 4), 4)
                        else if shrink \<ge> 2 then (f64 (factor / 2), 2)
                        else (factor, 1))
                 in case vipsShrinkJpeg E shrinkOnLoad1 img1 of
                      (err, img2) \<Rightarrow> ((factor1, err), img2))
              else if ImgType img1 = WEBP \<and> shrink \<ge> 2 then
                (case vipsShrinkWebp E shrink img1 of (err, img2) \<Rightarrow> ((factor, err), img2))
              else ((factor, None), img1)))"

text \<open>
  \<open>extractOrEmbedImage\<close>, lines 342-386.  The options are passed by value.  In the
  \<open>o.Trim\<close> case the short declaration \<open>left, top, width, height, err := img.vipsTrim(...)\<close>
  declares a new \<open>err\<close> in the scope of the case, and the assignment from \<open>vipsExtract\<close>
  writes that one too: the \<open>err\<close> that line 385 returns is the outer one, still nil.  The
  four numbers are bound in the order left, top, width, height.
\<close>

definition extractOrEmbedImage :: "Engine \<Rightarrow> Options \<Rightarrow> VipsImage
    \<Rightarrow> (VipsImage option \<times> error option) \<times> VipsImage" where
  "extractOrEmbedImage E opts img =
     (case Image img of
        None \<Rightarrow> ((None, Some Panic), img)
      | Some c \<Rightarrow>
          (let inWidth = sint (Xsize c); inHeight = sint (Ysize c)
           in if Gravity opts = GravitySmart \<or> SmartCrop opts then
                (case vipsSmartCrop E (Width opts) (Height opts) img of
                   (err, img1) \<Rightarrow> ((None, err), img1))
              else if Crop opts then
                (let width = go_int (min (float64 inWidth) (float64 (Width opts)));
                     height = go_int (min (float64 inHeight) (float64 (Height opts)));
                     (left, top') =
                        calculateCrop inWidth inHeight (Width opts) (Height opts) (Gravity opts);
                     left1 = go_int (max (float64 left) 0);
                     top1 = go_int (max (float64 top') 0)
                 in vipsExtract E (float32 left1) (float32 top1) (float32 width)
                      (float32 height) img)
              else if Embed opts then
                (let left = go_div (Width opts - inWidth) 2;
                     top' = go_div (Height opts - inHeight) 2
                 in case vipsEmbed E left top' (Width opts) (Height opts) (Extend opts)
                           (Background opts) img of
                      (err, img1) \<Rightarrow> ((None, err), img1))
              else if Trim opts then
                (case vipsTrim E (Background opts) (Threshold opts) img of
                   ((left, top', width, height, Some err1), img1) \<Rightarrow> ((None, None), img1)
                 | ((left, top', width, height, None), img1) \<Rightarrow>
                     (case vipsExtract E (float32 left) (float32 top')
                             (float32 width) (float32 height) img1 of
                        ((image', err1), img2) \<Rightarrow> ((image', None), img2)))
              else if ex_Top (Extract opts) \<noteq> 0 \<or> ex_Left (Extract opts) \<noteq> 0
                      \<or> ex_Width (Extract opts) \<noteq> 0 \<or> ex_Height (Extract opts) \<noteq> 0 then
                (let w = (if ex_Width (Extract opts) = 0 then float32 (Width opts)
                          else ex_Width (Extract opts));
                     h = (if ex_Height (Extract opts) = 0 then float32 (Height opts)
                          else ex_Height (Extract opts))
                 in if w = 0 \<or> h = 0 then ((None, Some ErrExtractAreaParamsRequired), img)
                    else vipsExtract E (ex_Left (Extract opts)) (ex_Top (Extract opts)) w h img)
              else ((None, None), img)))"

text \<open>\<open>transformImage\<close>, lines 276-317.\<close>

definition transformImage :: "Engine \<Rightarrow> int \<Rightarrow> real \<Rightarrow> VipsImage \<Rightarrow> error option \<times> VipsImage" where
  "transformImage E shrink residual img =
     (case (if shrink > 1 then shrinkImage E (Options img) residual shrink img
            else ((residual, None), img)) of
        ((_, Some err), img1) \<Rightarrow> (Some err, img1)
      | ((residual1, None), img1) \<Rightarrow>
          (case (if Force (Options img1) \<or> residual1 \<noteq> 0
                 then vipsResize E residual1 (Interpolator (Options img1)) img1
                 else (None, img1)) of
             (Some err, img2) \<Rightarrow> (Some err, img2)
           | (None, img2) \<Rightarrow>
               (let img3 = (if Force (Options img2)
                            then img2\<lparr>Options := (Options img2)\<lparr>Crop := False, Embed := False\<rparr>\<rparr>
                            else img2)
                in case extractOrEmbedImage E (Options img3) img3 of
                     ((_, Some err), img4) \<Rightarrow> (Some err, img4)
                   | ((None, None), img4) \<Rightarrow> (None, img4)
                   | ((Some i, None), img4) \<Rightarrow>
                       if length (Buffer i) > 0
                       then (None, img4\<lparr>Image := Image i, Buffer := Buffer i\<rparr>)
                       else (None, img4))))"

text \<open>\<open>applyEffects\<close>, lines 319-337.\<close>

definition applyEffects :: "Engine \<Rightarrow> VipsImage \<Rightarrow> error option \<times> VipsImage" where
  "applyEffects E img =
     (case (if gb_Sigma (GaussianBlur (Options img)) > 0
               \<or> gb_MinAmpl (GaussianBlur (Options img)) > 0
            then vipsGaussianBlur E (GaussianBlur (Options img)) img
            else (None, img)) of
        (Some err, img1) \<Rightarrow> (Some err, img1)
      | (None, img1) \<Rightarrow>
          (if (sh_Sigma (Sharpen (Options img1)) > 0 \<and> sh_Y2 (Sharpen (Options img1)) > 0)
              \<or> sh_Y3 (Sharpen (Options img1)) > 0
           then vipsSharpen E (Sharpen (Options img1)) img1
           else (None, img1)))"

text \<open>\<open>watermarkWithText\<close>, lines 421-448.\<close>

definition watermarkWithText :: "Engine \<Rightarrow> VipsImage \<Rightarrow> error option \<times> VipsImage" where
  "watermarkWithText E img =
     (let w = Watermark (Options img)
      in if wm_Text w = [] then (None, img)
         else
           (let w1 = (if wm_Font w = [] then w\<lparr>wm_Font := WatermarkFont E\<rparr> else w)
            in case (if wm_Width w1 = 0
                     then (case Image img of
                             None \<Rightarrow> None
                           | Some c \<Rightarrow>
                               Some (w1\<lparr>wm_Width :=
                                 go_int (real_of_int \<lfloor>float64 (go_div (sint (Xsize c)) 6)\<rfloor>)\<rparr>))
                     else Some w1) of
                 None \<Rightarrow> (Some Panic, img)
               | Some w2 \<Rightarrow>
                   (let w3 = (if wm_DPI w2 = 0 then w2\<lparr>wm_DPI := 150\<rparr> else w2);
                        w4 = (if wm_Margin w3 = 0 then w3\<lparr>wm_Margin := wm_Width w3\<rparr> else w3)
                    in vipsWatermark E w4 img)))"

text \<open>\<open>Flatten\<close>, lines 471-479.\<close>

definition Flatten :: "Engine \<Rightarrow> VipsImage \<Rightarrow> error option \<times> VipsImage" where
  "Flatten E img =
     (if ImgType img \<noteq> PNG \<or> Background (Options img) = ColorBlack E then (None, img)
      else vipsFlattenBackground E (Background (Options img)) img)"

text \<open>
  \<open>applyGamma\<close>, lines 706-715.  The source tests \<open>o.Gamma\<close> with no \<open>o\<close> declared in the
  function; it is read as \<open>img.Options.Gamma\<close>, the value handed to \<open>vipsGamma\<close>.
\<close>

definition applyGamma :: "Engine \<Rightarrow> VipsImage \<Rightarrow> error option \<times> VipsImage" where
  "applyGamma E img =
     (if Gamma (Options img) > 0 then vipsGamma E (Gamma (Options img)) img
      else (None, img))"

section \<open>Image watermark\<close>

text \<open>
  \<open>vipsDrawWatermark\<close>, lines 2171-2268.  The watermark is loaded as an image of its own
  and run through \<open>Process\<close>, which is the first argument here (\<open>None\<close> when that run does
  not return).  Its calls are entered in the same ghost list.  \<open>srcX\<close>, \<open>srcY\<close>, \<open>wmX\<close>,
  \<open>wmY\<close>, \<open>left\<close>, \<open>top\<close> and the offsets are \<open>float32\<close> values; \<open>left\<close> and \<open>top\<close> start at
  0 and stay there for an alignment that no case names.
\<close>

definition vipsDrawWatermark :: "(VipsImage \<Rightarrow> (error option \<times> VipsImage) option) \<Rightarrow> Engine
    \<Rightarrow> WatermarkImage \<Rightarrow> VipsImage \<Rightarrow> (error option \<times> VipsImage) option" where
  "vipsDrawWatermark process E w img =
     (case Image img of
        None \<Rightarrow> Some (Some ErrVipsImageNotValidPointer, img)
      | Some c \<Rightarrow>
          (let srcX = float32 (sint (Xsize c));
               srcY = float32 (sint (Ysize c));
               wmOptions = zeroOptions
                 \<lparr>Width := (if wi_Relative w then go_int (f32 (srcX * f32 (wi_Width w / 100)))
                             else go_int (wi_Width w)),
                  Force := False, MaintainAspect := True, Enlarge := False,
                  Background := ColorBlack E\<rparr>
           in case NewVipsImage E (wi_Buf w) wmOptions (Calls img) of
                ((_, Some e), calls) \<Rightarrow> Some (Some e, img\<lparr>Calls := calls\<rparr>)
              | ((None, None), calls) \<Rightarrow> Some (Some Panic, img\<lparr>Calls := calls\<rparr>)
              | ((Some watermark, None), calls) \<Rightarrow>
                  (case process watermark of
                     None \<Rightarrow> None
                   | Some (Some e, watermark1) \<Rightarrow> Some (Some e, img\<lparr>Calls := Calls watermark1\<rparr>)
                   | Some (None, watermark1) \<Rightarrow>
                       (let img1 = img\<lparr>Calls := Calls watermark1\<rparr>
                        in case Image watermark1 of
                             None \<Rightarrow> Some (Some Panic, img1)
                           | Some wc \<Rightarrow>
                               (let wmX = float32 (sint (Xsize wc));
                                    wmY = float32 (sint (Ysize wc));
                                    left =
                                      (if wi_Relative w then
                                         (case wi_HAlign w of
                                            PositionLeft \<Rightarrow> f32 (f32 (wi_HOffset w / 100) * srcX)
                                          | PositionRight \<Rightarrow>
                                              (let hOffset = f32 (f32 (wi_HOffset w / 100) * srcX)
                                               in f32 (f32 (srcX - hOffset) - wmX))
                                          | PositionCentre \<Rightarrow> f32 (f32 (srcX - wmX) / 2)
                                          | _ \<Rightarrow> 0)
                                       else
                                         (case wi_HAlign w of
                                            PositionLeft \<Rightarrow> wi_HOffset w
                                          | PositionRight \<Rightarrow>
                                              f32 (f32 (srcX - wi_HOffset w) - wmX)
                                          | PositionCentre \<Rightarrow> f32 (f32 (srcX - wmX) / 2)
                                          | _ \<Rightarrow> 0));
                                    top' =
                                      (if wi_Relative w then
                                         (case wi_VAlign w of
                                            PositionTop \<Rightarrow> f32 (f32 (wi_VOffset w / 100) * srcY)
                                          | PositionBottom \<Rightarrow>
                                              (let vOffset = f32 (f32 (wi_VOffset w / 100) * srcY)
                                               in f32 (f32 (srcY - vOffset) - wmY))
                                          | PositionCentre \<Rightarrow> f32 (f32 (srcY - wmY) / 2)
                                          | _ \<Rightarrow> 0)
                                       else
                                         (case wi_VAlign w of
                                            PositionTop \<Rightarrow> wi_VOffset w
                                          | PositionBottom \<Rightarrow>
                                              f32 (f32 (srcY - wi_VOffset w) - wmY)
                                          | PositionCentre \<Rightarrow> f32 (f32 (srcY - wmY) / 2)
                                          | _ \<Rightarrow> 0))
                                in Some (bridgeCall OpWatermarkImage
                                     (\<lambda>c. vips_watermark_image E c wc (go_int left) (go_int top')
                                            (wi_Opacity w) (wi_BlendMode w)) c img1))))))"

text \<open>\<open>watermarkWithImage\<close>, lines 450-469.\<close>

definition watermarkWithImage :: "(VipsImage \<Rightarrow> (error option \<times> VipsImage) option) \<Rightarrow> Engine
    \<Rightarrow> VipsImage \<Rightarrow> (error option \<times> VipsImage) option" where
  "watermarkWithImage process E img =
     (let w = WatermarkImage (Options img)
      in if length (wi_Buf w) = 0 then Some (None, img)
         else
           (let w1 = (if wi_Opacity w = 0 then w\<lparr>wi_Opacity := 1\<rparr> else w)
            in vipsDrawWatermark process E w1 img))"

section \<open>The operation planner\<close>

text \<open>
  \<open>err = stage(); if err != nil { return err }\<close>: the next stage runs only after a nil
  error.
\<close>

definition andThen :: "error option \<times> VipsImage \<Rightarrow> (VipsImage \<Rightarrow> error option \<times> VipsImage)
    \<Rightarrow> error option \<times> VipsImage" where
  "andThen r f = (case r of (Some err, img) \<Rightarrow> (Some err, img) | (None, img) \<Rightarrow> f img)"

text \<open>
  \<open>Process\<close>, lines 98-111: rotation and flip first; after a rotation the buffer is read
  back from the handle.
\<close>

definition Process_rotate :: "Engine \<Rightarrow> VipsImage \<Rightarrow> error option \<times> VipsImage" where
  "Process_rotate E img =
     (case rotateAndFlipImage E True img of
        ((_, Some err), img1) \<Rightarrow> (Some err, img1)
      | ((rotated, None), img1) \<Rightarrow>
          if rotated then
            (case getImageBuffer E img1 of
               ((buf, Some err), img2) \<Rightarrow> (Some err, img2\<lparr>Buffer := buf\<rparr>)
             | ((buf, None), img2) \<Rightarrow> (None, img2\<lparr>Buffer := buf\<rparr>))
          else (None, img1))"

text \<open>
  \<open>Process\<close>, lines 114-129: the operation is normalised, the box is clamped to the source
  when nothing may be enlarged, then factor, shrink and residual are computed, each call on
  the options the previous one left.  The result is (factor, shrink, residual) and the
  options.
\<close>

definition Process_plan :: "Engine \<Rightarrow> CImage \<Rightarrow> Options \<Rightarrow> (real \<times> int \<times> real) \<times> Options" where
  "Process_plan E c opts =
     (let opts1 = normalizeOperation opts;
          inWidth = sint (Xsize c);
          inHeight = sint (Ysize c);
          opts2 = (if \<not> Enlarge opts1 \<and> \<not> Force opts1
                      \<and> (inWidth < Width opts1 \<and> inHeight < Height opts1)
                   then opts1\<lparr>Width := inWidth, Height := inHeight\<rparr>
                   else opts1);
          (factor, opts3) = ScaleFactor c opts2;
          (shrink, opts4) = calculateShrink E c opts3;
          (residual, opts5) = calculateResidual E c opts4
      in ((factor, shrink, residual), opts5))"

text \<open>\<open>Process\<close>, lines 131-143: shrink-on-load for JPEG, and for WEBP from libvips 8.3.\<close>

definition Process_shrinkOnLoad :: "Engine \<Rightarrow> real \<times> int \<times> real \<Rightarrow> VipsImage
    \<Rightarrow> (error option \<times> real \<times> int \<times> real) \<times> VipsImage" where
  "Process_shrinkOnLoad E plan img =
     (case plan of
        (factor, shrink, residual) \<Rightarrow>
          (let supportsShrinkOnLoad =
                 ((ImgType img = WEBP \<and> VipsMajorVersion E \<ge> 8 \<and> VipsMinorVersion E \<ge> 3)
                  \<or> ImgType img = JPEG)
           in if supportsShrinkOnLoad \<and> shrink \<ge> 2 then
                (case shrinkOnLoad E img of
                   ((factor1, Some err), img1) \<Rightarrow> ((Some err, factor1, shrink, residual), img1)
                 | ((factor1, None), img1) \<Rightarrow>
                     (let factor2 = max factor1 1;
                          shrink2 = go_int (real_of_int \<lfloor>factor2\<rfloor>);
                          residual2 = f64 (float64 shrink2 / factor2)
                      in ((None, factor2, shrink2, residual2), img1)))
              else ((None, factor, shrink, residual), img)))"

text \<open>\<open>Process\<close>, lines 151-157: the transform gate.\<close>

definition Process_transform :: "Engine \<Rightarrow> int \<Rightarrow> real \<Rightarrow> VipsImage \<Rightarrow> error option \<times> VipsImage" where
  "Process_transform E shrink residual img =
     (case Image img of
        None \<Rightarrow> (Some Panic, img)
      | Some c \<Rightarrow>
          if shouldTransformImage c (Options img) then transformImage E shrink residual img
          else (None, img))"

text \<open>\<open>Process\<close>, lines 159-165.\<close>

definition Process_effects :: "Engine \<Rightarrow> VipsImage \<Rightarrow> error option \<times> VipsImage" where
  "Process_effects E img =
     (if shouldApplyEffects (Options img) then applyEffects E img else (None, img))"

text \<open>
  \<open>Process\<close>, lines 86-171: everything before the image watermark.
\<close>

definition Process_head :: "Engine \<Rightarrow> VipsImage \<Rightarrow> error option \<times> VipsImage" where
  "Process_head E img0 =
     (let img = applyDefaults E img0
      in if \<not> IsTypeSupported E (OutType (Options img)) then (Some ErrUnsupportedOutputType, img)
         else
           andThen (Process_rotate E img) (\<lambda>img1.
             case Image img1 of
               None \<Rightarrow> (Some Panic, img1)
             | Some c \<Rightarrow>
                 (case Process_plan E c (Options img1) of
                    (plan, opts) \<Rightarrow>
                      (case Process_shrinkOnLoad E plan (img1\<lparr>Options := opts\<rparr>) of
                         ((Some err, _), img2) \<Rightarrow> (Some err, img2)
                       | ((None, factor, shrink, residual), img2) \<Rightarrow>
                           andThen (zoomImage E img2) (\<lambda>img3.
                           andThen (Process_transform E shrink residual img3) (\<lambda>img4.
                           andThen (Process_effects E img4) (\<lambda>img5.
                           watermarkWithText E img5)))))))"

text \<open>\<open>Process\<close>, lines 179-191: flatten and gamma.\<close>

definition Process_tail :: "Engine \<Rightarrow> VipsImage \<Rightarrow> error option \<times> VipsImage" where
  "Process_tail E img = andThen (Flatten E img) (applyGamma E)"

text \<open>
  \<open>Process\<close>, lines 86-192.  \<open>vipsDrawWatermark\<close> calls \<open>Process\<close> on the watermark, so the
  function is recursive; the first argument bounds the depth of these calls, and \<open>None\<close> is
  the answer of a run that would go deeper.
\<close>

primrec Process :: "nat \<Rightarrow> Engine \<Rightarrow> VipsImage \<Rightarrow> (error option \<times> VipsImage) option" where
  "Process 0 E img = None"
| "Process (Suc n) E img =
     (case Process_head E img of
        (Some err, img1) \<Rightarrow> Some (Some err, img1)
      | (None, img1) \<Rightarrow>
          (case watermarkWithImage (Process n E) E img1 of
             None \<Rightarrow> None
           | Some (Some err, img2) \<Rightarrow> Some (Some err, img2)
           | Some (None, img2) \<Rightarrow> Some (Process_tail E img2)))"

section \<open>The method DSL\<close>

text \<open>\<open>ImageSize\<close> and \<open>ImageMetadata\<close>, declared beside \<open>VipsImage.Metadata\<close>.\<close>

record ImageSize =
  sz_Width :: int
  sz_Height :: int

record ImageMetadata =
  md_Orientation :: int
  md_Channels :: int
  md_Alpha :: bool
  md_Profile :: bool
  md_Type :: string
  md_Space :: string
  md_Colourspace :: string
  md_Size :: ImageSize

text \<open>\<open>Image\<close> of the method DSL: a counted reference to a \<open>VipsImage\<close>.\<close>

record ImageDSL =
  dsl_VipsImage :: "VipsImage option"

text \<open>
  \<open>Image.Metadata\<close>: its body is the single statement \<open>return i.Metadata()\<close>, a call of the
  same method on the same receiver.  \<open>None\<close> is the run that never returns.
\<close>

partial_function (option) Image_Metadata :: "ImageDSL \<Rightarrow> (ImageMetadata \<times> error option) option" where
  "Image_Metadata i = Image_Metadata i"

text \<open>\<open>Image.Size\<close>: \<open>m, err := i.Metadata(); return m.Size, err\<close>.\<close>

definition Image_Size :: "ImageDSL \<Rightarrow> (ImageSize \<times> error option) option" where
  "Image_Size i = (case Image_Metadata i of None \<Rightarrow> None | Some (m, err) \<Rightarrow> Some (md_Size m, err))"

section \<open>Concrete inputs\<close>

text \<open>
  An engine for running the pipeline on examples: libvips 8.7 with the four output
  formats, window sizes 4 (bicubic), 2 (bilinear), 3 and 1, and bridge calls that all
  succeed and hand back the handle they were given.
\<close>

definition okEngine :: Engine where
  "okEngine =
     \<lparr>VipsMajorVersion = 8, VipsMinorVersion = 7, MaxSize = 16383, DefaultQuality = 80,
      InterpretationSRGB = 22, WatermarkFont = ''sans 10'', ColorBlack = zeroColor,
      ExtendBackground = 5,
      VipsIsTypeSupported = (\<lambda>t. t = JPEG \<or> t = PNG \<or> t = WEBP \<or> t = TIFF),
      IsSVGImage = (\<lambda>buf. False),
      isMagickBuffer = (\<lambda>buf. False),
      interpolator_window_size =
        (\<lambda>i. case i of Bicubic \<Rightarrow> 4 | Bilinear \<Rightarrow> 2 | Nohalo \<Rightarrow> 3 | Nearest \<Rightarrow> 1),
      vips_init_image = (\<lambda>buf t. Inr \<lparr>Xsize = 100, Ysize = 100, exif_orientation = 0,
                                      has_alpha_channel = False\<rparr>),
      vips_rotate_fill = (\<lambda>c angle bg. Inr c),
      vips_flip_bridge = (\<lambda>c d. Inr c),
      vips_zoom_bridge = (\<lambda>c z. Inr c),
      vips_watermark = (\<lambda>c w w0. Inr c),
      vips_save_bridge = (\<lambda>c t. Inr [0xFF, 0xD8, 0xFF]),
      vips_extract_area_bridge = (\<lambda>c l t w h. Inr c),
      vips_smartcrop_bridge = (\<lambda>c w h. Inr c),
      vips_find_trim_bridge = (\<lambda>c bg th. Inr (0, 0, sint (Xsize c), sint (Ysize c))),
      vips_jpegload_buffer_shrink = (\<lambda>buf n. Inr \<lparr>Xsize = 100, Ysize = 100,
        exif_orientation = 0, has_alpha_channel = False\<rparr>),
      vips_webpload_buffer_shrink = (\<lambda>buf n. Inr \<lparr>Xsize = 100, Ysize = 100,
        exif_orientation = 0, has_alpha_channel = False\<rparr>),
      vips_shrink_bridge = (\<lambda>c n. Inr c),
      vips_resize_bridge = (\<lambda>c sc i. Inr c),
      vips_embed_bridge = (\<lambda>c l t w h ex bg. Inr c),
      vips_gaussblur_bridge = (\<lambda>c sg ma. Inr c),
      vips_sharpen_bridge = (\<lambda>c sh. Inr c),
      vips_watermark_image = (\<lambda>c wc l t op bm. Inr c),
      vips_flatten_background_brigde = (\<lambda>c bg. Inr c),
      vips_gamma_bridge = (\<lambda>c g. Inr c)\<rparr>"

text \<open>The same engine with a rotation that fails, and with a trim search that fails.\<close>

definition rotateFailsEngine :: Engine where
  "rotateFailsEngine = okEngine\<lparr>vips_rotate_fill := (\<lambda>c angle bg. Inl ''rotate failed'')\<rparr>"

definition trimFailsEngine :: Engine where
  "trimFailsEngine = okEngine\<lparr>vips_find_trim_bridge := (\<lambda>c bg th. Inl ''trim failed'')\<rparr>"

text \<open>A live handle of the given size, with no EXIF orientation and no alpha channel.\<close>

definition sizedImage :: "int \<Rightarrow> int \<Rightarrow> CImage" where
  "sizedImage w h =
     \<lparr>Xsize = word_of_int w, Ysize = word_of_int h, exif_orientation = 0,
      has_alpha_channel = False\<rparr>"



text \<open>A loaded JPEG image of the given size and EXIF orientation, with the given options.\<close>

definition loadedImage :: "int \<Rightarrow> int \<Rightarrow> int \<Rightarrow> Options \<Rightarrow> VipsImage" where
  "loadedImage w h orientation opts =
     \<lparr>Buffer = [0xFF, 0xD8, 0xFF],
      Image = Some \<lparr>Xsize = word_of_int w, Ysize = word_of_int h,
                     exif_orientation = orientation, has_alpha_channel = False\<rparr>,
      ImgType = JPEG, Options = opts, Calls = []\<rparr>"

text \<open>
  The orientation table as the specification words it: EXIF code to (rotation, flip),
  every other value to no rotation and no flip.
\<close>

fun spec_orientation_table :: "int \<Rightarrow> Angle \<times> bool" where
  "spec_orientation_table n =
     (if n = 1 then (0, False) else if n = 2 then (0, True)
      else if n = 3 then (180, False) else if n = 4 then (180, True)
      else if n = 5 then (90, True) else if n = 6 then (90, False)
      else if n = 7 then (270, True) else if n = 8 then (270, False)
      else (0, False))"



section \<open>Properties of floating-point rounding\<close>

lemma round_even_of_int: "round_even (real_of_int n) = n"
  by (simp add: round_even_def)

lemma round_even_error: "\<bar>real_of_int (round_even q) - q\<bar> \<le> 1 / 2"
  unfolding round_even_def Let_def by (auto; linarith)

text \<open>The exponent is the one of the binade of \<open>x\<close>.\<close>

lemma expo_lower:
  assumes "x \<noteq> 0"
  shows "2 powi (expo x) \<le> \<bar>x\<bar>"
proof (cases "1 \<le> \<bar>x\<bar>")
  case True
  define n where "n = \<lfloor>\<bar>x\<bar>\<rfloor>"
  have n: "0 < n" using True by (simp add: n_def)
  have e: "expo x = bitlen n - 1" using True by (simp add: expo_def n_def)
  have "0 \<le> bitlen n - 1" using n bitlen_bounds [OF n]
    by (smt (verit) bitlen_nonneg bitlen_eq_zero_iff)
  then have "(2::real) powi (bitlen n - 1) = 2 ^ nat (bitlen n - 1)"
    by (simp add: power_int_def)
  also have "\<dots> \<le> real_of_int n"
    using bitlen_bounds [OF n] by (metis of_int_le_iff of_int_numeral of_int_power)
  also have "\<dots> \<le> \<bar>x\<bar>" by (simp add: n_def)
  finally show ?thesis by (simp add: e)
next
  case False
  define y where "y = 1 / \<bar>x\<bar>"
  define n where "n = \<lceil>y\<rceil> - 1"
  have y: "1 < y" using False assms by (simp add: y_def)
  have n: "0 < n" using y unfolding n_def by linarith
  have e: "expo x = - bitlen n" using False by (simp add: expo_def n_def y_def)
  have "n < 2 ^ nat (bitlen n)" using bitlen_bounds [OF n] by simp
  then have "\<lceil>y\<rceil> \<le> 2 ^ nat (bitlen n)" by (simp add: n_def)
  then have "y \<le> real_of_int (2 ^ nat (bitlen n))"
    using ceiling_le_iff by blast
  then have yle: "y \<le> 2 ^ nat (bitlen n)" by simp
  have "(2::real) powi (- bitlen n) = 1 / 2 ^ nat (bitlen n)"
    using bitlen_nonneg [of n] by (simp add: power_int_def field_simps)
  also have "\<dots> \<le> 1 / y"
    using yle y by (simp add: frac_le)
  also have "\<dots> = \<bar>x\<bar>" by (simp add: y_def)
  finally show ?thesis by (simp add: e)
qed

lemma expo_upper:
  assumes "x \<noteq> 0"
  shows "\<bar>x\<bar> < 2 powi (expo x + 1)"
proof (cases "1 \<le> \<bar>x\<bar>")
  case True
  define n where "n = \<lfloor>\<bar>x\<bar>\<rfloor>"
  have n: "0 < n" using True by (simp add: n_def)
  have e: "expo x = bitlen n - 1" using True by (simp add: expo_def n_def)
  have "n + 1 \<le> 2 ^ nat (bitlen n)" using bitlen_bounds [OF n] by simp
  then have "real_of_int (n + 1) \<le> real_of_int (2 ^ nat (bitlen n))"
    using of_int_le_iff by blast
  then have "real_of_int n + 1 \<le> 2 ^ nat (bitlen n)" by simp
  moreover have "\<bar>x\<bar> < real_of_int n + 1" unfolding n_def by linarith
  moreover have "(2::real) powi (bitlen n) = 2 ^ nat (bitlen n)"
    using bitlen_nonneg [of n] by (simp add: power_int_def)
  ultimately show ?thesis by (simp add: e)
next
  case False
  define y where "y = 1 / \<bar>x\<bar>"
  define n where "n = \<lceil>y\<rceil> - 1"
  have y: "1 < y" using False assms by (simp add: y_def)
  have n: "0 < n" using y unfolding n_def by linarith
  have e: "expo x = - bitlen n" using False by (simp add: expo_def n_def y_def)
  have k: "0 \<le> bitlen n - 1" using n bitlen_bounds [OF n]
    by (smt (verit) bitlen_nonneg bitlen_eq_zero_iff)
  have "(2::real) ^ nat (bitlen n - 1) \<le> real_of_int n"
    using bitlen_bounds [OF n] by (metis of_int_le_iff of_int_numeral of_int_power)
  moreover have "real_of_int n < y" unfolding n_def by linarith
  ultimately have lt: "2 ^ nat (bitlen n - 1) < y" by linarith
  have "\<bar>x\<bar> = 1 / y" by (simp add: y_def)
  also have "\<dots> < 1 / 2 ^ nat (bitlen n - 1)"
    using lt by (simp add: frac_less2)
  also have "\<dots> = (2::real) powi (- (bitlen n - 1))"
    using k by (simp only: power_int_minus_divide) (simp add: power_int_def)
  finally show ?thesis by (simp add: e)
qed

text \<open>Rounding moves a number by at most half a unit in the last place.\<close>

lemma fl_error:
  assumes "x \<noteq> 0"
  shows "\<bar>fl p x - x\<bar> \<le> 2 powi (expo x - int p)"
proof -
  define u :: real where "u = 2 powi (expo x - int p + 1)"
  have u: "0 < u" by (simp add: u_def)
  have "fl p x - x = u * (real_of_int (round_even (x / u)) - x / u)"
    using assms u by (simp add: fl_def u_def [symmetric] Let_def right_diff_distrib)
  then have "\<bar>fl p x - x\<bar> = u * \<bar>real_of_int (round_even (x / u)) - x / u\<bar>"
    using u by (simp add: abs_mult)
  also have "\<dots> \<le> u * (1 / 2)"
    using u round_even_error [of "x / u"] by (simp only: mult_le_cancel_left_pos)
  also have "\<dots> = 2 powi (expo x - int p)"
    by (simp add: u_def power_int_add)
  finally show ?thesis .
qed

lemma fl_relative_error: "\<bar>fl p x - x\<bar> \<le> \<bar>x\<bar> / 2 ^ p"
proof (cases "x = 0")
  case True
  then show ?thesis by (simp add: fl_def)
next
  case False
  have "\<bar>fl p x - x\<bar> \<le> 2 powi (expo x - int p)"
    using False by (rule fl_error)
  also have "\<dots> = 2 powi (expo x) / 2 ^ p"
    by (simp add: power_int_diff)
  also have "\<dots> \<le> \<bar>x\<bar> / 2 ^ p"
    using expo_lower [OF False] by (simp add: divide_right_mono)
  finally show ?thesis .
qed

lemma fl_positive:
  assumes "0 < x" and "0 < p"
  shows "0 < fl p x"
proof -
  have "(2::real) ^ 1 \<le> 2 ^ p"
    using assms(2) by (intro power_increasing) simp_all
  then have "\<bar>x\<bar> / 2 ^ p \<le> \<bar>x\<bar> / 2"
    by (intro divide_left_mono) simp_all
  with fl_relative_error [of p x] have "\<bar>fl p x - x\<bar> \<le> \<bar>x\<bar> / 2"
    by (rule order_trans)
  with assms(1) show ?thesis by linarith
qed

text \<open>Rounding is monotone on the positive numbers.\<close>

lemma round_even_mono:
  assumes "q \<le> q'"
  shows "round_even q \<le> round_even q'"
proof -
  have n: "\<lfloor>q\<rfloor> \<le> \<lfloor>q'\<rfloor>" using assms by (rule floor_mono)
  show ?thesis
  proof (cases "\<lfloor>q\<rfloor> = \<lfloor>q'\<rfloor>")
    case True
    then show ?thesis
      using assms unfolding round_even_def Let_def by (auto; linarith)
  next
    case False
    with n have "\<lfloor>q\<rfloor> + 1 \<le> \<lfloor>q'\<rfloor>" by simp
    moreover have "round_even q \<le> \<lfloor>q\<rfloor> + 1" and "\<lfloor>q'\<rfloor> \<le> round_even q'"
      unfolding round_even_def Let_def by auto
    ultimately show ?thesis by linarith
  qed
qed

lemma fl_range:
  assumes "0 < x" and "0 < p"
  shows "2 powi (expo x) \<le> fl p x" and "fl p x \<le> 2 powi (expo x + 1)"
proof -
  define u :: real where "u = 2 powi (expo x - int p + 1)"
  have u: "0 < u" by (simp add: u_def)
  have x: "x \<noteq> 0" using assms by simp
  have f: "fl p x = u * real_of_int (round_even (x / u))"
    using x by (simp add: fl_def u_def Let_def)
  have lo: "2 powi (expo x) \<le> x" and hi: "x < 2 powi (expo x + 1)"
    using expo_lower [OF x] expo_upper [OF x] assms by simp_all
  obtain k where k: "p = Suc k"
    using assms(2) by (cases p) simp_all
  have a: "2 powi (expo x) = u * 2 ^ k"
    by (simp add: u_def k power_int_add [symmetric] flip: power_int_of_nat)
  have b: "2 powi (expo x + 1) = u * 2 ^ p"
    by (simp add: u_def power_int_add [symmetric] flip: power_int_of_nat)
  show "fl p x \<le> 2 powi (expo x + 1)"
  proof -
    have "x / u \<le> real_of_int (2 ^ p)"
      using hi u unfolding b by (simp add: field_simps)
    then have "round_even (x / u) \<le> round_even (real_of_int (2 ^ p))"
      by (rule round_even_mono)
    then have "round_even (x / u) \<le> 2 ^ p"
      by (simp only: round_even_of_int)
    then have "real_of_int (round_even (x / u)) \<le> real_of_int (2 ^ p)"
      using of_int_le_iff by blast
    then have "u * real_of_int (round_even (x / u)) \<le> u * 2 ^ p"
      using u by simp
    then show ?thesis by (simp only: f b)
  qed
  show "2 powi (expo x) \<le> fl p x"
  proof -
    have "real_of_int (2 ^ k) \<le> x / u"
      using lo u unfolding a by (simp add: field_simps)
    then have "round_even (real_of_int (2 ^ k)) \<le> round_even (x / u)"
      by (rule round_even_mono)
    then have "2 ^ k \<le> round_even (x / u)"
      by (simp only: round_even_of_int)
    then have "real_of_int (2 ^ k) \<le> real_of_int (round_even (x / u))"
      using of_int_le_iff by blast
    then have "u * 2 ^ k \<le> u * real_of_int (round_even (x / u))"
      using u by simp
    then show ?thesis by (simp only: f a)
  qed
qed

lemma expo_mono:
  assumes "0 < x" and "x \<le> y"
  shows "expo x \<le> expo y"
proof (rule ccontr)
  assume "\<not> expo x \<le> expo y"
  then have "expo y + 1 \<le> expo x" by simp
  then have "(2::real) powi (expo y + 1) \<le> 2 powi (expo x)"
    by (intro power_int_increasing) simp_all
  moreover have "2 powi (expo x) \<le> x" and "y < 2 powi (expo y + 1)"
    using expo_lower [of x] expo_upper [of y] assms by simp_all
  ultimately show False using assms(2) by linarith
qed

lemma fl_mono:
  assumes "0 < x" and "x \<le> y" and "0 < p"
  shows "fl p x \<le> fl p y"
proof (cases "expo x = expo y")
  case True
  define u :: real where "u = 2 powi (expo x - int p + 1)"
  have u: "0 < u" by (simp add: u_def)
  have "x / u \<le> y / u" using assms(2) u by (simp add: divide_right_mono)
  then have "round_even (x / u) \<le> round_even (y / u)" by (rule round_even_mono)
  then have "real_of_int (round_even (x / u)) \<le> real_of_int (round_even (y / u))"
    using of_int_le_iff by blast
  then have "u * real_of_int (round_even (x / u)) \<le> u * real_of_int (round_even (y / u))"
    using u by simp
  then show ?thesis
    using assms(1,2) by (simp add: fl_def Let_def True [symmetric] u_def)
next
  case False
  with expo_mono [OF assms(1,2)] have "expo x + 1 \<le> expo y" by simp
  then have "(2::real) powi (expo x + 1) \<le> 2 powi (expo y)"
    by (intro power_int_increasing) simp_all
  moreover have "fl p x \<le> 2 powi (expo x + 1)"
    using assms(1,3) by (rule fl_range)
  moreover have "2 powi (expo y) \<le> fl p y"
    using assms by (intro fl_range) simp_all
  ultimately show ?thesis by linarith
qed

text \<open>A number with a significand of at most \<open>p\<close> bits is not moved.\<close>

lemma fl_exact:
  assumes "\<bar>m\<bar> < 2 ^ p"
  shows "fl p (real_of_int m * 2 powi k) = real_of_int m * 2 powi k"
proof (cases "m = 0")
  case True
  then show ?thesis by (simp add: fl_def)
next
  case False
  define x :: real where "x = real_of_int m * 2 powi k"
  have x: "x \<noteq> 0" using False by (simp add: x_def)
  have "real_of_int \<bar>m\<bar> < real_of_int (2 ^ p)"
    using assms of_int_less_iff by blast
  then have m: "\<bar>real_of_int m\<bar> < 2 ^ p" by simp
  have "2 powi (expo x) \<le> \<bar>x\<bar>" using x by (rule expo_lower)
  also have "\<bar>x\<bar> = \<bar>real_of_int m\<bar> * 2 powi k"
    by (simp add: x_def abs_mult)
  also have "\<dots> < 2 ^ p * 2 powi k"
    using m by (simp add: mult_strict_right_mono)
  also have "\<dots> = 2 powi (int p + k)"
    by (simp add: power_int_add)
  finally have lt: "(2::real) powi (expo x) < 2 powi (int p + k)" .
  have "expo x < int p + k"
  proof (rule ccontr)
    assume "\<not> expo x < int p + k"
    then have "int p + k \<le> expo x" by simp
    then have "(2::real) powi (int p + k) \<le> 2 powi (expo x)"
      by (intro power_int_increasing) simp_all
    with lt show False by simp
  qed
  then have "0 \<le> k - (expo x - int p + 1)" by simp
  then obtain j :: nat where "k - (expo x - int p + 1) = int j"
    using nonneg_int_cases by blast
  then have j: "k = expo x - int p + 1 + int j" by simp
  define u :: real where "u = 2 powi (expo x - int p + 1)"
  have u: "0 < u" by (simp add: u_def)
  have "2 powi k = u * 2 ^ j"
    by (subst j) (simp add: u_def power_int_add)
  then have q: "x / u = real_of_int (m * 2 ^ j)"
    using u by (simp add: x_def)
  have "fl p x = u * real_of_int (round_even (x / u))"
    using x by (simp add: fl_def u_def Let_def)
  also have "\<dots> = u * (x / u)"
    by (simp only: q round_even_of_int)
  also have "\<dots> = x" using u by simp
  finally show ?thesis by (simp add: x_def)
qed

lemma f64_of_int: "\<bar>n\<bar> < 2 ^ 53 \<Longrightarrow> f64 (real_of_int n) = real_of_int n"
  using fl_exact [of n 53 0] by (simp add: f64_def)

lemma f64_one: "f64 1 = 1"
  using f64_of_int [of 1] by simp

lemma f64_positive: "0 < x \<Longrightarrow> 0 < f64 x"
  by (simp add: f64_def fl_positive)

lemma f64_relative_error: "\<bar>f64 x - x\<bar> \<le> \<bar>x\<bar> / 2 ^ 53"
  unfolding f64_def by (rule fl_relative_error)

lemma f64_min: "0 < x \<Longrightarrow> 0 < y \<Longrightarrow> min (f64 x) (f64 y) = f64 (min x y)"
  unfolding f64_def min_def
  using fl_mono [of x y 53] fl_mono [of y x 53] by (auto simp: not_le)

lemma f64_max: "0 < x \<Longrightarrow> 0 < y \<Longrightarrow> max (f64 x) (f64 y) = f64 (max x y)"
  unfolding f64_def max_def
  using fl_mono [of x y 53] fl_mono [of y x 53] by (auto simp: not_le)

lemma float64_exact: "\<bar>n\<bar> < 2 ^ 53 \<Longrightarrow> float64 n = real_of_int n"
  by (simp add: float64_def f64_of_int)

lemma float64_positive: "0 < n \<Longrightarrow> 0 < float64 n"
  by (simp add: float64_def f64_positive)

text \<open>A C \<open>int\<close> is converted to \<open>float64\<close> without rounding.\<close>

lemma sint_bound: "\<bar>sint (x :: 32 word)\<bar> < 2 ^ 52"
proof -
  have "sint x < 2 ^ (LENGTH(32) - 1)" and "- (2 ^ (LENGTH(32) - 1)) \<le> sint x"
    by (rule sint_lt, rule sint_ge)
  then show ?thesis by simp
qed

lemma float64_sint: "float64 (sint (x :: 32 word)) = real_of_int (sint x)"
  using sint_bound [of x] by (intro float64_exact) simp

section \<open>Properties of the conversions\<close>

lemma go_int_of_int: "go_int (real_of_int n) = n"
  by (simp add: go_int_def)

lemma roundFloat_of_int:
  assumes "\<bar>n\<bar> < 2 ^ 52"
  shows "roundFloat (real_of_int n) = n"
proof -
  have a: "\<bar>2 * n + 1\<bar> < 2 ^ 53" and b: "\<bar>2 * n - 1\<bar> < 2 ^ 53"
    using assms by simp_all
  have a': "real_of_int (2 * n + 1) * 2 powi (- 1) = real_of_int n + 1 / 2"
    and b': "real_of_int (2 * n - 1) * 2 powi (- 1) = real_of_int n - 1 / 2"
    by (simp_all add: power_int_minus_divide field_simps)
  have p: "f64 (real_of_int n + 1 / 2) = real_of_int n + 1 / 2"
    using fl_exact [OF a, of "- 1"] unfolding a' by (simp only: f64_def)
  have m: "f64 (real_of_int n - 1 / 2) = real_of_int n - 1 / 2"
    using fl_exact [OF b, of "- 1"] unfolding b' by (simp only: f64_def)
  show ?thesis
    unfolding roundFloat_def p m go_int_of_int by (auto; linarith)
qed

lemma roundFloat_sint: "roundFloat (real_of_int (sint (x :: 32 word))) = sint x"
  using sint_bound [of x] by (rule roundFloat_of_int)

lemma go_div_nonneg: "0 \<le> a \<Longrightarrow> 0 < b \<Longrightarrow> go_div a b = a div b"
  by (cases "a = 0") (simp_all add: go_div_def)

text \<open>
  The model computes what binary64 and binary32 compute.  A 1024 x 768 source with a
  requested width of 150: the factor is the \<open>float64\<close> nearest to 1024 / 150, and the height
  that \<open>ScaleFactor\<close> writes is 112 (in exact arithmetic 768 / (1024 / 150) is 112.5, and the
  height would be 113).  In \<open>float32\<close>, 13 percent of 900 is 116.99999237..., which \<open>C.int\<close>
  truncates to 116.
\<close>

lemma ScaleFactor_rounds:
  "fst (ScaleFactor (sizedImage 1024 768) (zeroOptions\<lparr>Width := 150\<rparr>))
     = 7686143364045647 / 1125899906842624
   \<and> Height (snd (ScaleFactor (sizedImage 1024 768) (zeroOptions\<lparr>Width := 150\<rparr>))) = 112
   \<and> f32 (f32 (13 / 100) * float32 900) = 15335423 / 131072
   \<and> go_int (f32 (f32 (13 / 100) * float32 900)) = 116"
  by code_simp

section \<open>Properties of the geometry calculator\<close>

lemma ScaleFactor_Interpolator: "Interpolator (snd (ScaleFactor c opts)) = Interpolator opts"
  by (simp add: ScaleFactor_def Let_def)

lemma ScaleFactor_stable:
  assumes "0 < Width opts" and "0 < Height opts"
  shows "snd (ScaleFactor c opts) = opts"
  using assms by (simp add: ScaleFactor_def Let_def)

lemma calculateShrink_value:
  "fst (calculateShrink E c opts) =
     (if \<not> Enlarge opts \<and> \<not> Force opts \<and> sint (Xsize c) < Width opts
         \<and> sint (Ysize c) < Height opts then 1
      else max 1 (if fst (ScaleFactor c opts) \<ge> 2 \<and> vipsWindowSize E (Interpolator opts) > 3
                  then \<lfloor>f64 (f64 (fst (ScaleFactor c opts) * 3)
                              / vipsWindowSize E (Interpolator opts))\<rfloor>
                  else \<lfloor>fst (ScaleFactor c opts)\<rfloor>))"
proof -
  have m: "go_int (max (real_of_int k) 1) = max 1 k" for k
    by (simp add: go_int_def max_def)
  show ?thesis
    by (simp add: calculateShrink_def Let_def split_beta ScaleFactor_Interpolator m)
qed

lemma calculateShrink_options:
  "snd (calculateShrink E c opts) =
     (if \<not> Enlarge opts \<and> \<not> Force opts \<and> sint (Xsize c) < Width opts
         \<and> sint (Ysize c) < Height opts then opts
      else snd (ScaleFactor c opts))"
  by (simp add: calculateShrink_def Let_def split_beta)

lemma calculateResidual_value:
  "fst (calculateResidual E c opts) =
     (if \<not> Enlarge opts \<and> \<not> Force opts \<and> sint (Xsize c) < Width opts
         \<and> sint (Ysize c) < Height opts then 0
      else f64 (float64 (fst (calculateShrink E c opts))
                 / fst (ScaleFactor c (snd (calculateShrink E c opts)))))"
  by (simp add: calculateResidual_def Let_def split_beta)

text \<open>
  Claim C1.  For every handle and options with \<open>Width > 0\<close> and \<open>Height > 0\<close> to which the
  no-enlarge short-circuit does not apply: with \<open>Crop\<close> set \<open>ScaleFactor\<close> returns
  \<open>min (inW / Width) (inH / Height)\<close>, and with \<open>Force\<close> set and \<open>Crop\<close> not set it returns
  \<open>max (inW / Width) (inH / Height)\<close>.  The two ratios are \<open>float64\<close> quotients of the sizes
  converted to \<open>float64\<close>.  For a source of positive size and a box below \<open>2\<^sup>5\<^sup>3\<close> the result
  is the \<open>float64\<close> nearest to the minimum, or the maximum, of the exact ratios.
\<close>

theorem C1_ScaleFactor_crop_force:
  assumes "0 < Width opts" and "0 < Height opts"
    and "\<not> (\<not> Enlarge opts \<and> \<not> Force opts \<and> sint (Xsize c) < Width opts
            \<and> sint (Ysize c) < Height opts)"
  shows "(Crop opts \<longrightarrow>
            fst (ScaleFactor c opts)
              = min (f64 (float64 (sint (Xsize c)) / float64 (Width opts)))
                    (f64 (float64 (sint (Ysize c)) / float64 (Height opts))))
       \<and> (Force opts \<and> \<not> Crop opts \<longrightarrow>
            fst (ScaleFactor c opts)
              = max (f64 (float64 (sint (Xsize c)) / float64 (Width opts)))
                    (f64 (float64 (sint (Ysize c)) / float64 (Height opts))))
       \<and> (0 < sint (Xsize c) \<and> 0 < sint (Ysize c) \<and> Width opts < 2 ^ 53 \<and> Height opts < 2 ^ 53
            \<longrightarrow>
            (Crop opts \<longrightarrow>
               fst (ScaleFactor c opts)
                 = f64 (min (real_of_int (sint (Xsize c)) / real_of_int (Width opts))
                            (real_of_int (sint (Ysize c)) / real_of_int (Height opts))))
          \<and> (Force opts \<and> \<not> Crop opts \<longrightarrow>
               fst (ScaleFactor c opts)
                 = f64 (max (real_of_int (sint (Xsize c)) / real_of_int (Width opts))
                            (real_of_int (sint (Ysize c)) / real_of_int (Height opts)))))"
proof -
  let ?x = "real_of_int (sint (Xsize c)) / real_of_int (Width opts)"
  let ?y = "real_of_int (sint (Ysize c)) / real_of_int (Height opts)"
  have eq: "ScaleFactor c opts =
      (let xfactor = f64 (float64 (sint (Xsize c)) / float64 (Width opts));
           yfactor = f64 (float64 (sint (Ysize c)) / float64 (Height opts))
       in if Crop opts then (min xfactor yfactor, opts) else (max xfactor yfactor, opts))"
    unfolding ScaleFactor_def using assms by (simp only: if_False if_True Let_def simp_thms)
  have code: "(Crop opts \<longrightarrow>
            fst (ScaleFactor c opts)
              = min (f64 (float64 (sint (Xsize c)) / float64 (Width opts)))
                    (f64 (float64 (sint (Ysize c)) / float64 (Height opts))))
       \<and> (Force opts \<and> \<not> Crop opts \<longrightarrow>
            fst (ScaleFactor c opts)
              = max (f64 (float64 (sint (Xsize c)) / float64 (Width opts)))
                    (f64 (float64 (sint (Ysize c)) / float64 (Height opts))))"
    by (simp add: eq Let_def)
  have nearest: "(Crop opts \<longrightarrow> fst (ScaleFactor c opts) = f64 (min ?x ?y))
          \<and> (Force opts \<and> \<not> Crop opts \<longrightarrow> fst (ScaleFactor c opts) = f64 (max ?x ?y))"
    if size: "0 < sint (Xsize c)" "0 < sint (Ysize c)"
      and box: "Width opts < 2 ^ 53" "Height opts < 2 ^ 53"
  proof -
    have w: "float64 (Width opts) = real_of_int (Width opts)"
      and h: "float64 (Height opts) = real_of_int (Height opts)"
      using assms(1,2) box by (simp_all add: float64_exact)
    have x: "0 < ?x" and y: "0 < ?y"
      using assms(1,2) size by (simp_all del: of_int_sint)
    show ?thesis
      unfolding eq Let_def float64_sint w h
      using f64_min [OF x y] f64_max [OF x y] by (simp del: of_int_sint)
  qed
  from code nearest show ?thesis
    by blast
qed

text \<open>
  Witness of C1: a 1000 x 800 source and a 500 x 300 box.  The ratios are 2 and 8/3; crop
  takes 2, and force takes the \<open>float64\<close> nearest to 8/3.
\<close>

theorem C1_ScaleFactor_crop_force_witness:
  "fst (ScaleFactor (sizedImage 1000 800) (zeroOptions\<lparr>Width := 500, Height := 300, Crop := True\<rparr>))
     = 2
   \<and> fst (ScaleFactor (sizedImage 1000 800)
            (zeroOptions\<lparr>Width := 500, Height := 300, Force := True\<rparr>))
       = 6004799503160661 / 2251799813685248
   \<and> fst (ScaleFactor (sizedImage 1000 800)
            (zeroOptions\<lparr>Width := 500, Height := 300, Force := True\<rparr>))
       = f64 (8 / 3)"
proof -
  let ?c = "sizedImage 1000 800"
  let ?oc = "zeroOptions\<lparr>Width := 500, Height := 300, Crop := True\<rparr>"
  let ?of = "zeroOptions\<lparr>Width := 500, Height := 300, Force := True\<rparr>"
  have w: "0 < Width ?oc" "0 < Width ?of" and h: "0 < Height ?oc" "0 < Height ?of"
    by simp_all
  have nc: "\<not> (\<not> Enlarge ?oc \<and> \<not> Force ?oc \<and> sint (Xsize ?c) < Width ?oc
                \<and> sint (Ysize ?c) < Height ?oc)"
    by (simp add: sizedImage_def)
  have nf: "\<not> (\<not> Enlarge ?of \<and> \<not> Force ?of \<and> sint (Xsize ?c) < Width ?of
                \<and> sint (Ysize ?c) < Height ?of)"
    by simp
  have flags: "Crop ?oc" "Force ?of \<and> \<not> Crop ?of"
    by (simp_all add: zeroOptions_def)
  have pre: "0 < sint (Xsize ?c) \<and> 0 < sint (Ysize ?c) \<and> Width ?of < 2 ^ 53 \<and> Height ?of < 2 ^ 53"
    by (simp add: sizedImage_def)
  have xc: "f64 (float64 (sint (Xsize ?c)) / float64 (Width ?oc)) = 2"
    by code_simp
  have yc: "f64 (float64 (sint (Ysize ?c)) / float64 (Height ?oc))
              = 6004799503160661 / 2251799813685248"
    by code_simp
  have m: "max (real_of_int (sint (Xsize ?c)) / real_of_int (Width ?of))
               (real_of_int (sint (Ysize ?c)) / real_of_int (Height ?of)) = 8 / 3"
    by (simp add: sizedImage_def)
  have v: "f64 (8 / 3) = 6004799503160661 / 2251799813685248"
    by code_simp
  from C1_ScaleFactor_crop_force [OF w(1) h(1) nc] flags(1)
  have a0: "fst (ScaleFactor ?c ?oc)
      = min (f64 (float64 (sint (Xsize ?c)) / float64 (Width ?oc)))
            (f64 (float64 (sint (Ysize ?c)) / float64 (Height ?oc)))"
    by blast
  have a: "fst (ScaleFactor ?c ?oc) = 2"
    unfolding a0 xc yc by simp
  from C1_ScaleFactor_crop_force [OF w(2) h(2) nf] flags(2) pre
  have b0: "fst (ScaleFactor ?c ?of)
      = f64 (max (real_of_int (sint (Xsize ?c)) / real_of_int (Width ?of))
                 (real_of_int (sint (Ysize ?c)) / real_of_int (Height ?of)))"
    by blast
  have b: "fst (ScaleFactor ?c ?of) = f64 (8 / 3)"
    unfolding b0 m ..
  from a b v show ?thesis
    by (simp only: simp_thms)
qed

lemma ScaleFactor_positive:
  assumes "0 < sint (Xsize c)" and "0 < sint (Ysize c)"
  shows "0 < fst (ScaleFactor c opts)"
proof -
  have x: "0 < f64 (float64 (sint (Xsize c)) / float64 (Width opts))" if "0 < Width opts"
    using assms(1) that by (intro f64_positive divide_pos_pos float64_positive)
  have y: "0 < f64 (float64 (sint (Ysize c)) / float64 (Height opts))" if "0 < Height opts"
    using assms(2) that by (intro f64_positive divide_pos_pos float64_positive)
  show ?thesis
    using x y by (auto simp: ScaleFactor_def Let_def min_def max_def)
qed

text \<open>
  The residual is the rounded quotient of the rounded shrink: it differs from the exact
  quotient by two roundings.
\<close>

lemma residual_tolerance:
  assumes "1 \<le> s" and "0 < F"
  shows "\<bar>f64 (float64 s / F) / real_of_int s - 1 / F\<bar> \<le> (1 / F) / 2 ^ 51"
proof -
  define a where "a = float64 s"
  define r where "r = f64 (a / F)"
  define t where "t = real_of_int s"
  have t: "0 < t" using assms(1) by (simp add: t_def)
  have ea: "\<bar>a - t\<bar> \<le> t / 2 ^ 53"
    using f64_relative_error [of t] t by (simp add: a_def float64_def t_def)
  have a: "0 < a" using assms(1) by (simp add: a_def float64_positive)
  have "t / 2 ^ 53 \<le> t" using t by (simp add: field_simps)
  with ea have a2: "a \<le> 2 * t" by linarith
  have "\<bar>r - a / F\<bar> \<le> \<bar>a / F\<bar> / 2 ^ 53"
    unfolding r_def by (rule f64_relative_error)
  also have "\<bar>a / F\<bar> = a / F" using a assms(2) by simp
  also have "(a / F) / 2 ^ 53 \<le> (2 * t / F) / 2 ^ 53"
    using a2 assms(2) by (intro divide_right_mono) simp_all
  finally have er: "\<bar>r - a / F\<bar> \<le> (2 * t / F) / 2 ^ 53" .
  have "\<bar>a / F - t / F\<bar> = \<bar>a - t\<bar> / F"
    using assms(2) by (simp add: diff_divide_distrib [symmetric])
  also have "\<dots> \<le> (t / 2 ^ 53) / F"
    using ea assms(2) by (intro divide_right_mono) simp_all
  finally have ef: "\<bar>a / F - t / F\<bar> \<le> (t / F) / 2 ^ 53" by simp
  have "\<bar>r - t / F\<bar> \<le> \<bar>r - a / F\<bar> + \<bar>a / F - t / F\<bar>" by linarith
  also have "\<dots> \<le> (2 * t / F) / 2 ^ 53 + (t / F) / 2 ^ 53"
    using er ef by linarith
  also have "\<dots> = 3 * ((t / F) / 2 ^ 53)" by simp
  also have "\<dots> \<le> 4 * ((t / F) / 2 ^ 53)"
    using t assms(2) by (intro mult_right_mono) simp_all
  also have "\<dots> = (t / F) / 2 ^ 51" by simp
  finally have e: "\<bar>r - t / F\<bar> \<le> (t / F) / 2 ^ 51" .
  have "r / t - 1 / F = (r - t / F) / t"
    using t by (simp add: diff_divide_distrib)
  then have "\<bar>r / t - 1 / F\<bar> = \<bar>r - t / F\<bar> / t"
    using t by simp
  also have "\<dots> \<le> ((t / F) / 2 ^ 51) / t"
    using e t by (intro divide_right_mono) simp_all
  also have "\<dots> = (1 / F) / 2 ^ 51"
    using t by simp
  finally show ?thesis by (simp add: r_def a_def t_def)
qed

text \<open>
  Claim C7, as the code has it.  For every handle of positive size, every engine and all
  options:
  \<^item> \<open>ScaleFactor\<close> is positive;
  \<^item> \<open>calculateShrink\<close> returns an integer that is at least 1: it is 1 under the no-enlarge
    short-circuit, and otherwise the larger of 1 and \<open>floor(factor * 3 / windowSize)\<close> when
    \<open>factor \<ge> 2\<close> and the window size exceeds 3, the larger of 1 and \<open>floor(factor)\<close> when not
    (the product and the quotient are \<open>float64\<close> operations);
  \<^item> \<open>calculateResidual\<close> is 0 under the short-circuit and otherwise the \<open>float64\<close> quotient
    of \<open>calculateShrink\<close> by \<open>ScaleFactor\<close>, the latter taken on the options that
    \<open>calculateShrink\<close> leaves;
  \<^item> when \<open>Width\<close> and \<open>Height\<close> are both positive and the short-circuit does not apply, all
    three are taken on the same options, and the residual divided by the shrink is
    \<open>1 / ScaleFactor\<close> within a relative error of \<open>2\<^sup>-\<^sup>5\<^sup>1\<close>.
  The product \<open>shrink * residual\<close> is about \<open>shrink\<^sup>2 / factor\<close>, not \<open>1 / factor\<close>.
\<close>

theorem C7_shrink_plan:
  assumes "0 < sint (Xsize c)" and "0 < sint (Ysize c)"
  shows "0 < fst (ScaleFactor c opts)
    \<and> 1 \<le> fst (calculateShrink E c opts)
    \<and> fst (calculateShrink E c opts) =
        (if \<not> Enlarge opts \<and> \<not> Force opts \<and> sint (Xsize c) < Width opts
            \<and> sint (Ysize c) < Height opts then 1
         else max 1 (if fst (ScaleFactor c opts) \<ge> 2 \<and> vipsWindowSize E (Interpolator opts) > 3
                     then \<lfloor>f64 (f64 (fst (ScaleFactor c opts) * 3)
                                 / vipsWindowSize E (Interpolator opts))\<rfloor>
                     else \<lfloor>fst (ScaleFactor c opts)\<rfloor>))
    \<and> fst (calculateResidual E c opts) =
        (if \<not> Enlarge opts \<and> \<not> Force opts \<and> sint (Xsize c) < Width opts
            \<and> sint (Ysize c) < Height opts then 0
         else f64 (float64 (fst (calculateShrink E c opts))
                    / fst (ScaleFactor c (snd (calculateShrink E c opts)))))
    \<and> (0 < Width opts \<and> 0 < Height opts
         \<and> \<not> (\<not> Enlarge opts \<and> \<not> Force opts \<and> sint (Xsize c) < Width opts
                \<and> sint (Ysize c) < Height opts)
        \<longrightarrow> fst (calculateResidual E c opts)
              = f64 (float64 (fst (calculateShrink E c opts)) / fst (ScaleFactor c opts))
          \<and> \<bar>fst (calculateResidual E c opts) / real_of_int (fst (calculateShrink E c opts))
               - 1 / fst (ScaleFactor c opts)\<bar>
              \<le> (1 / fst (ScaleFactor c opts)) / 2 ^ 51)"
proof -
  have pos: "0 < fst (ScaleFactor c opts)"
    using assms by (rule ScaleFactor_positive)
  have ge1: "1 \<le> fst (calculateShrink E c opts)"
    by (simp add: calculateShrink_value)
  have last: "fst (calculateResidual E c opts)
              = f64 (float64 (fst (calculateShrink E c opts)) / fst (ScaleFactor c opts))
          \<and> \<bar>fst (calculateResidual E c opts) / real_of_int (fst (calculateShrink E c opts))
               - 1 / fst (ScaleFactor c opts)\<bar>
              \<le> (1 / fst (ScaleFactor c opts)) / 2 ^ 51"
    if wh: "0 < Width opts" "0 < Height opts"
      and ns: "\<not> (\<not> Enlarge opts \<and> \<not> Force opts \<and> sint (Xsize c) < Width opts
                   \<and> sint (Ysize c) < Height opts)"
  proof -
    have same: "snd (calculateShrink E c opts) = opts"
      using wh by (simp add: calculateShrink_options ScaleFactor_stable)
    have r: "fst (calculateResidual E c opts)
              = f64 (float64 (fst (calculateShrink E c opts)) / fst (ScaleFactor c opts))"
      by (subst calculateResidual_value) (simp only: ns if_False same)
    show ?thesis
      unfolding r using residual_tolerance [OF ge1 pos] by simp
  qed
  show ?thesis
    using pos ge1 last calculateShrink_value [of E c opts] calculateResidual_value [of E c opts]
    by blast
qed

text \<open>
  Witness of C7.  A 400 x 400 source forced to 100 x 100 with the bilinear interpolator
  (window size 2): the factor is 4, the shrink 4 and the residual 1, and the residual
  divided by the shrink is 1/4.  A 1024 x 768 source with a requested width of 150 and the
  bicubic interpolator (window size 4): the shrink is 5, \<open>calculateShrink\<close> leaves the
  height 112, and the residual is the \<open>float64\<close> quotient of 5 by the factor 768 / 112 of
  these options.
\<close>

theorem C7_shrink_plan_witness:
  "fst (ScaleFactor (sizedImage 400 400)
       (zeroOptions\<lparr>Width := 100, Height := 100, Force := True, Interpolator := Bilinear\<rparr>)) = 4
   \<and> 1 \<le> fst (calculateShrink okEngine (sizedImage 400 400)
       (zeroOptions\<lparr>Width := 100, Height := 100, Force := True, Interpolator := Bilinear\<rparr>))
   \<and> \<bar>fst (calculateResidual okEngine (sizedImage 400 400)
         (zeroOptions\<lparr>Width := 100, Height := 100, Force := True, Interpolator := Bilinear\<rparr>))
       / real_of_int (fst (calculateShrink okEngine (sizedImage 400 400)
         (zeroOptions\<lparr>Width := 100, Height := 100, Force := True, Interpolator := Bilinear\<rparr>)))
       - 1 / 4\<bar> \<le> (1 / 4) / 2 ^ 51
   \<and> fst (calculateShrink okEngine (sizedImage 1024 768) (zeroOptions\<lparr>Width := 150\<rparr>)) = 5
   \<and> Height (snd (calculateShrink okEngine (sizedImage 1024 768) (zeroOptions\<lparr>Width := 150\<rparr>)))
       = 112
   \<and> fst (calculateResidual okEngine (sizedImage 1024 768) (zeroOptions\<lparr>Width := 150\<rparr>))
       = f64 (5 / f64 (768 / 112))"
proof -
  let ?c = "sizedImage 400 400"
  let ?o = "zeroOptions\<lparr>Width := 100, Height := 100, Force := True, Interpolator := Bilinear\<rparr>"
  let ?d = "sizedImage 1024 768"
  let ?p = "zeroOptions\<lparr>Width := 150\<rparr>"
  have size: "0 < sint (Xsize ?c)" "0 < sint (Ysize ?c)"
    and size': "0 < sint (Xsize ?d)" "0 < sint (Ysize ?d)"
    by (simp_all add: sizedImage_def)
  have pre: "0 < Width ?o \<and> 0 < Height ?o
      \<and> \<not> (\<not> Enlarge ?o \<and> \<not> Force ?o \<and> sint (Xsize ?c) < Width ?o \<and> sint (Ysize ?c) < Height ?o)"
    by (simp add: zeroOptions_def)
  have f: "fst (ScaleFactor ?c ?o) = 4"
    by code_simp
  from C7_shrink_plan [OF size, where E = okEngine and opts = ?o]
  have ge: "1 \<le> fst (calculateShrink okEngine ?c ?o)"
    and imp: "0 < Width ?o \<and> 0 < Height ?o
      \<and> \<not> (\<not> Enlarge ?o \<and> \<not> Force ?o \<and> sint (Xsize ?c) < Width ?o \<and> sint (Ysize ?c) < Height ?o)
      \<longrightarrow> \<bar>fst (calculateResidual okEngine ?c ?o)
               / real_of_int (fst (calculateShrink okEngine ?c ?o))
             - 1 / fst (ScaleFactor ?c ?o)\<bar> \<le> (1 / fst (ScaleFactor ?c ?o)) / 2 ^ 51"
    by blast+
  from imp pre have tol: "\<bar>fst (calculateResidual okEngine ?c ?o)
               / real_of_int (fst (calculateShrink okEngine ?c ?o))
             - 1 / fst (ScaleFactor ?c ?o)\<bar> \<le> (1 / fst (ScaleFactor ?c ?o)) / 2 ^ 51"
    by blast
  have short: "\<not> (\<not> Enlarge ?p \<and> \<not> Force ?p \<and> sint (Xsize ?d) < Width ?p
      \<and> sint (Ysize ?d) < Height ?p)"
    by (simp add: sizedImage_def)
  have k: "fst (calculateShrink okEngine ?d ?p) = 5"
    by code_simp
  have h: "Height (snd (calculateShrink okEngine ?d ?p)) = 112"
    by code_simp
  have g: "fst (ScaleFactor ?d (snd (calculateShrink okEngine ?d ?p))) = f64 (768 / 112)"
    by code_simp
  have five: "float64 5 = 5"
    by code_simp
  from C7_shrink_plan [OF size', where E = okEngine and opts = ?p]
  have "fst (calculateResidual okEngine ?d ?p) =
        (if \<not> Enlarge ?p \<and> \<not> Force ?p \<and> sint (Xsize ?d) < Width ?p
            \<and> sint (Ysize ?d) < Height ?p then 0
         else f64 (float64 (fst (calculateShrink okEngine ?d ?p))
                    / fst (ScaleFactor ?d (snd (calculateShrink okEngine ?d ?p)))))"
    by blast
  then have res: "fst (calculateResidual okEngine ?d ?p) = f64 (5 / f64 (768 / 112))"
    by (simp only: short if_False k g five)
  from f ge tol k h res show ?thesis
    by (simp only: simp_thms)
qed

text \<open>
  Counterexample to C7 as stated: for the first input the shrink times the residual is 4,
  while \<open>1 / ScaleFactor\<close> is 1/4.
\<close>

theorem C7_counterexample:
  "real_of_int (fst (calculateShrink okEngine (sizedImage 400 400)
       (zeroOptions\<lparr>Width := 100, Height := 100, Force := True, Interpolator := Bilinear\<rparr>)))
     * fst (calculateResidual okEngine (sizedImage 400 400)
       (zeroOptions\<lparr>Width := 100, Height := 100, Force := True, Interpolator := Bilinear\<rparr>)) = 4
   \<and> 1 / fst (ScaleFactor (sizedImage 400 400)
       (zeroOptions\<lparr>Width := 100, Height := 100, Force := True, Interpolator := Bilinear\<rparr>)) = 1 / 4"
  by code_simp

text \<open>
  Claim C8.  \<open>calculateCrop\<close> returns (left, top) by gravity, the divisions being Go's:
  North gives \<open>((inW - outW + 1) / 2, 0)\<close>, East \<open>(inW - outW, (inH - outH + 1) / 2)\<close>, South
  \<open>((inW - outW + 1) / 2, inH - outH)\<close>, West \<open>(0, (inH - outH + 1) / 2)\<close>, and Centre, like
  every other gravity, \<open>((inW - outW + 1) / 2, (inH - outH + 1) / 2)\<close>.  Centre with
  (1000, 800, 500, 400) gives left 250 and top 200.
\<close>

theorem C8_calculateCrop:
  "calculateCrop inW inH outW outH GravityNorth = (go_div (inW - outW + 1) 2, 0)
   \<and> calculateCrop inW inH outW outH GravityEast = (inW - outW, go_div (inH - outH + 1) 2)
   \<and> calculateCrop inW inH outW outH GravitySouth = (go_div (inW - outW + 1) 2, inH - outH)
   \<and> calculateCrop inW inH outW outH GravityWest = (0, go_div (inH - outH + 1) 2)
   \<and> calculateCrop inW inH outW outH GravityCentre
       = (go_div (inW - outW + 1) 2, go_div (inH - outH + 1) 2)
   \<and> calculateCrop inW inH outW outH GravitySmart
       = (go_div (inW - outW + 1) 2, go_div (inH - outH + 1) 2)
   \<and> calculateCrop 1000 800 500 400 GravityCentre = (250, 200)"
  by (simp add: calculateCrop_def go_div_def)

text \<open>Witness of C8: the five gravities on a 1000 x 800 source and a 500 x 400 box.\<close>

theorem C8_calculateCrop_witness:
  "calculateCrop 1000 800 500 400 GravityNorth = (250, 0)
   \<and> calculateCrop 1000 800 500 400 GravityEast = (500, 200)
   \<and> calculateCrop 1000 800 500 400 GravitySouth = (250, 400)
   \<and> calculateCrop 1000 800 500 400 GravityWest = (0, 200)
   \<and> calculateCrop 1000 800 500 400 GravityCentre = (250, 200)"
  using C8_calculateCrop [where inW = 1000 and inH = 800 and outW = 500 and outH = 400]
  by (simp add: go_div_def)

section \<open>Properties of the orientation resolver\<close>

lemma exifSwitch_table: "exifSwitch n = spec_orientation_table n"
  by (simp add: exifSwitch_def D0_def D90_def D180_def D270_def)

text \<open>
  Claim C4, as the code has it.  On a live handle \<open>calculateRotationAndFlip\<close> resolves the
  EXIF orientation by the table 1 to (0, no flip), 2 to (0, flip), 3 to (180, no flip), 4 to
  (180, flip), 5 to (90, flip), 6 to (90, no flip), 7 to (270, flip), 8 to (270, no flip),
  and every other value to no rotation and no flip.  When \<open>additive\<close> is true the rotation
  returned is the plain sum of the table's rotation and the rotation the user asked for,
  with no reduction modulo 360 and no clamping; when \<open>additive\<close> is false and the user asked
  for no rotation, it is the table's rotation.
\<close>

theorem C4_orientation_table:
  assumes "Image img = Some c"
  shows "calculateRotationAndFlip True img =
           (fst (spec_orientation_table (exif_orientation c)) + Rotate (Options img),
            snd (spec_orientation_table (exif_orientation c)), None)
       \<and> (Rotate (Options img) \<le> 0 \<longrightarrow>
            calculateRotationAndFlip False img =
              (fst (spec_orientation_table (exif_orientation c)),
               snd (spec_orientation_table (exif_orientation c)), None))"
  using assms
  by (simp add: calculateRotationAndFlip_def vipsExifOrientation_def exifSwitch_table Let_def
      split_beta del: spec_orientation_table.simps)

text \<open>
  Witness of C4: EXIF code 6 and a user rotation of 90 give 180 and no flip; EXIF code 2
  and no user rotation give a flip and no rotation.
\<close>

theorem C4_orientation_table_witness:
  "calculateRotationAndFlip True (loadedImage 100 50 6 (zeroOptions\<lparr>Rotate := 90\<rparr>))
     = (180, False, None)
   \<and> calculateRotationAndFlip False (loadedImage 100 50 2 zeroOptions) = (0, True, None)"
proof -
  have i1: "Image (loadedImage 100 50 6 (zeroOptions\<lparr>Rotate := 90\<rparr>)) = Some (sizedImage 100 50\<lparr>exif_orientation := 6\<rparr>)"
    and i2: "Image (loadedImage 100 50 2 zeroOptions) = Some (sizedImage 100 50\<lparr>exif_orientation := 2\<rparr>)"
    by (simp_all add: loadedImage_def sizedImage_def)
  have r: "Rotate (Options (loadedImage 100 50 2 zeroOptions)) \<le> 0"
    by (simp add: loadedImage_def zeroOptions_def)
  from C4_orientation_table [OF i1] C4_orientation_table [OF i2] r show ?thesis
    by (simp add: loadedImage_def)
qed

text \<open>
  Counterexample to C4 as stated: EXIF code 8 (270 degrees) with a user rotation of 180
  gives 450, which is none of 0, 90, 180, 270.
\<close>

theorem C4_counterexample:
  "calculateRotationAndFlip True (loadedImage 100 50 8 (zeroOptions\<lparr>Rotate := 180\<rparr>))
     = (450, False, None)
   \<and> fst (calculateRotationAndFlip True (loadedImage 100 50 8 (zeroOptions\<lparr>Rotate := 180\<rparr>)))
       \<notin> {0, 90, 180, 270}"
  by (simp add: calculateRotationAndFlip_def vipsExifOrientation_def exifSwitch_def
      loadedImage_def zeroOptions_def D270_def)




section \<open>Properties of the image watermark\<close>



section \<open>Properties of the operation planner\<close>

lemma ScaleFactor_at_size:
  assumes "Width opts = sint (Xsize c)" and "Height opts = sint (Ysize c)"
  shows "ScaleFactor c opts = (1, opts)"
proof -
  have w: "opts\<lparr>Width := sint (Xsize c)\<rparr> = opts"
    and h: "opts\<lparr>Height := sint (Ysize c)\<rparr> = opts"
    using assms
    by (metis Options.surjective Options.update_convs(1),
        metis Options.surjective Options.update_convs(2))
  have r: "roundFloat (f64 (real_of_int (sint x))) = sint x" for x :: "32 word"
    using sint_bound [of x] by (simp add: f64_of_int roundFloat_sint del: of_int_sint)
  show ?thesis
    unfolding ScaleFactor_def Let_def assms float64_sint
    by (auto simp: f64_one r w h simp del: of_int_sint)
qed

lemma calculateShrink_at_size:
  assumes "Width opts = sint (Xsize c)" and "Height opts = sint (Ysize c)"
  shows "calculateShrink E c opts = (1, opts)"
  by (simp add: calculateShrink_def ScaleFactor_at_size [OF assms] assms go_int_def)

lemma calculateResidual_at_size:
  assumes "Width opts = sint (Xsize c)" and "Height opts = sint (Ysize c)"
  shows "calculateResidual E c opts = (1, opts)"
proof -
  have "float64 1 = 1"
    using float64_exact [of 1] by simp
  then show ?thesis
    by (simp add: calculateResidual_def calculateShrink_at_size [OF assms]
        ScaleFactor_at_size [OF assms] assms f64_one)
qed

text \<open>
  Claim C3, as the code has it.  When \<open>Enlarge\<close> is false, \<open>Force\<close> is still false after
  \<open>normalizeOperation\<close> (one of \<open>MaintainAspect\<close>, \<open>Crop\<close>, \<open>Embed\<close> is set, or a rotation is
  requested), and the source is strictly smaller than the requested box in both
  dimensions, \<open>Process\<close> clamps \<open>Width\<close> and \<open>Height\<close> to the source dimensions, and factor,
  shrink and residual are all 1; \<open>ScaleFactor\<close> returns 1 on the clamped options.
\<close>

theorem C3_enlargement_guard:
  assumes "\<not> Enlarge opts" and "\<not> Force (normalizeOperation opts)"
    and "sint (Xsize c) < Width opts" and "sint (Ysize c) < Height opts"
  shows "Process_plan E c opts = ((1, 1, 1), opts\<lparr>Width := sint (Xsize c), Height := sint (Ysize c)\<rparr>)
       \<and> ScaleFactor c (opts\<lparr>Width := sint (Xsize c), Height := sint (Ysize c)\<rparr>)
           = (1, opts\<lparr>Width := sint (Xsize c), Height := sint (Ysize c)\<rparr>)"
proof -
  let ?o = "opts\<lparr>Width := sint (Xsize c), Height := sint (Ysize c)\<rparr>"
  have n: "normalizeOperation opts = opts"
    using assms(2) by (auto simp: normalizeOperation_def split: if_splits)
  have f: "\<not> Force opts"
    using assms(2) n by simp
  have sz: "Width ?o = sint (Xsize c)" "Height ?o = sint (Ysize c)"
    by simp_all
  show ?thesis
    using assms(1,3,4) f
    by (simp add: Process_plan_def n ScaleFactor_at_size [OF sz] calculateShrink_at_size [OF sz]
        calculateResidual_at_size [OF sz])
qed

text \<open>
  Witness of C3: a 100 x 100 source and a crop request of 200 x 200.  The effective box is
  100 x 100 and the factor is 1.
\<close>

theorem C3_enlargement_guard_witness:
  "Process_plan okEngine (sizedImage 100 100)
      (zeroOptions\<lparr>Width := 200, Height := 200, Crop := True\<rparr>)
     = ((1, 1, 1), zeroOptions\<lparr>Width := 100, Height := 100, Crop := True\<rparr>)
   \<and> fst (ScaleFactor (sizedImage 100 100)
           (zeroOptions\<lparr>Width := 100, Height := 100, Crop := True\<rparr>)) = 1"
proof -
  let ?o = "zeroOptions\<lparr>Width := 200, Height := 200, Crop := True\<rparr>"
  let ?c = "sizedImage 100 100"
  have h: "\<not> Enlarge ?o" "\<not> Force (normalizeOperation ?o)"
    "sint (Xsize ?c) < Width ?o" "sint (Ysize ?c) < Height ?o"
    by (simp_all add: zeroOptions_def normalizeOperation_def sizedImage_def)
  have e: "?o\<lparr>Width := sint (Xsize ?c), Height := sint (Ysize ?c)\<rparr>
           = zeroOptions\<lparr>Width := 100, Height := 100, Crop := True\<rparr>"
    by (simp add: zeroOptions_def sizedImage_def)
  from C3_enlargement_guard [OF h, of okEngine]
  have "Process_plan okEngine ?c ?o
          = ((1, 1, 1), zeroOptions\<lparr>Width := 100, Height := 100, Crop := True\<rparr>)
      \<and> ScaleFactor ?c (zeroOptions\<lparr>Width := 100, Height := 100, Crop := True\<rparr>)
          = (1, zeroOptions\<lparr>Width := 100, Height := 100, Crop := True\<rparr>)"
    by (simp only: e)
  then show ?thesis
    by simp
qed

text \<open>
  Counterexample to C3 as stated: a 100 x 100 source and a request of 200 x 200 with
  \<open>Enlarge\<close> and \<open>Force\<close> false and no other flag.  \<open>normalizeOperation\<close> sets \<open>Force\<close>, the box
  stays 200 x 200, the factor is 1/2, and the run resizes the image.
\<close>

theorem C3_counterexample:
  "\<not> Enlarge (zeroOptions\<lparr>Width := 200, Height := 200\<rparr>)
   \<and> \<not> Force (zeroOptions\<lparr>Width := 200, Height := 200\<rparr>)
   \<and> sint (Xsize (sizedImage 100 100)) < Width (zeroOptions\<lparr>Width := 200, Height := 200\<rparr>)
   \<and> sint (Ysize (sizedImage 100 100)) < Height (zeroOptions\<lparr>Width := 200, Height := 200\<rparr>)
   \<and> Process_plan okEngine (sizedImage 100 100) (zeroOptions\<lparr>Width := 200, Height := 200\<rparr>)
       = ((1 / 2, 1, 2), zeroOptions\<lparr>Width := 200, Height := 200, Force := True\<rparr>)
   \<and> map_option (\<lambda>r. (fst r, Width (Options (snd r)), Height (Options (snd r)), Calls (snd r)))
         (Process 1 okEngine
            (loadedImage 100 100 1 (zeroOptions\<lparr>Width := 200, Height := 200\<rparr>)))
       = Some (None, 200, 200, [OpResize])"
proof -
  let ?o = "zeroOptions\<lparr>Width := 200, Height := 200\<rparr>"
  let ?c = "sizedImage 100 100"
  have n: "normalizeOperation ?o = ?o\<lparr>Force := True\<rparr>"
    by (simp add: normalizeOperation_def zeroOptions_def)
  have s: "ScaleFactor ?c (?o\<lparr>Force := True\<rparr>) = (1 / 2, ?o\<lparr>Force := True\<rparr>)"
    by code_simp
  have k: "calculateShrink okEngine ?c (?o\<lparr>Force := True\<rparr>) = (1, ?o\<lparr>Force := True\<rparr>)"
    by code_simp
  have r: "calculateResidual okEngine ?c (?o\<lparr>Force := True\<rparr>) = (2, ?o\<lparr>Force := True\<rparr>)"
    by code_simp
  have p: "Process_plan okEngine ?c ?o = ((1 / 2, 1, 2), ?o\<lparr>Force := True\<rparr>)"
    by (simp add: Process_plan_def n s k r)
  have run: "map_option (\<lambda>r. (fst r, Width (Options (snd r)), Height (Options (snd r)), Calls (snd r)))
         (Process 1 okEngine (loadedImage 100 100 1 ?o)) = Some (None, 200, 200, [OpResize])"
    by code_simp
  show ?thesis
    using p run by (simp add: zeroOptions_def sizedImage_def)
qed

lemma applyDefaults_frame:
  "Image (applyDefaults E img) = Image img"
  "Buffer (applyDefaults E img) = Buffer img"
  "ImgType (applyDefaults E img) = ImgType img"
  "Calls (applyDefaults E img) = Calls img"
  "Width (Options (applyDefaults E img)) = Width (Options img)"
  "Height (Options (applyDefaults E img)) = Height (Options img)"
  "Zoom (Options (applyDefaults E img)) = Zoom (Options img)"
  "Crop (Options (applyDefaults E img)) = Crop (Options img)"
  "SmartCrop (Options (applyDefaults E img)) = SmartCrop (Options img)"
  "Enlarge (Options (applyDefaults E img)) = Enlarge (Options img)"
  "Embed (Options (applyDefaults E img)) = Embed (Options img)"
  "Flip (Options (applyDefaults E img)) = Flip (Options img)"
  "Flop (Options (applyDefaults E img)) = Flop (Options img)"
  "Force (Options (applyDefaults E img)) = Force (Options img)"
  "MaintainAspect (Options (applyDefaults E img)) = MaintainAspect (Options img)"
  "NoAutoRotate (Options (applyDefaults E img)) = NoAutoRotate (Options img)"
  "Trim (Options (applyDefaults E img)) = Trim (Options img)"
  "Rotate (Options (applyDefaults E img)) = Rotate (Options img)"
  "Extract (Options (applyDefaults E img)) = Extract (Options img)"
  "GaussianBlur (Options (applyDefaults E img)) = GaussianBlur (Options img)"
  "Sharpen (Options (applyDefaults E img)) = Sharpen (Options img)"
  "Watermark (Options (applyDefaults E img)) = Watermark (Options img)"
  "WatermarkImage (Options (applyDefaults E img)) = WatermarkImage (Options img)"
  by (simp_all add: applyDefaults_def Let_def)

lemma set_Rotate_same:
  "Rotate (Options img) = r \<Longrightarrow> img\<lparr>Options := (Options img)\<lparr>Rotate := r\<rparr>\<rparr> = img"
  by (cases img, rename_tac b i t opts cs u, case_tac opts) simp

lemma rotateAndFlipImage_identity:
  assumes "Image img = Some c" and "spec_orientation_table (exif_orientation c) = (0, False)"
    and "Rotate (Options img) = 0" and "\<not> Flip (Options img)" and "\<not> Flop (Options img)"
  shows "rotateAndFlipImage E True img = ((False, None), img)"
proof -
  have "exifSwitch (exif_orientation c) = (0, False)"
    using assms(2) by (simp only: exifSwitch_table)
  then have c: "calculateRotationAndFlip True img = (0, False, None)"
    using assms(1,3)
    by (simp add: calculateRotationAndFlip_def vipsExifOrientation_def Let_def)
  show ?thesis
    using assms(3,4,5)
    by (simp add: rotateAndFlipImage_def c set_Rotate_same)
qed

lemma Process_plan_at_size:
  assumes "Width opts = sint (Xsize c)" and "Height opts = sint (Ysize c)" and "Crop opts"
  shows "Process_plan E c opts = ((1, 1, 1), opts)"
proof -
  have n: "normalizeOperation opts = opts"
    using assms(3) by (simp add: normalizeOperation_def)
  show ?thesis
    by (simp add: Process_plan_def n assms(1,2) ScaleFactor_at_size [OF assms(1,2)]
        calculateShrink_at_size [OF assms(1,2)] calculateResidual_at_size [OF assms(1,2)])
qed

lemma gate_closed:
  assumes "Width opts = sint (Xsize c)" and "Height opts = sint (Ysize c)"
    and "\<not> Force opts" and "\<not> Enlarge opts" and "\<not> Trim opts"
    and "ex_Width (Extract opts) = 0" and "ex_Height (Extract opts) = 0"
  shows "\<not> shouldTransformImage c opts"
  using assms by (simp add: shouldTransformImage_def)

lemma Process_head_identity:
  assumes img: "Image img = Some c"
    and size: "Width (Options img) = sint (Xsize c)" "Height (Options img) = sint (Ysize c)"
    and flags: "Crop (Options img)" "\<not> Force (Options img)" "\<not> Enlarge (Options img)"
      "\<not> Trim (Options img)" "ex_Width (Extract (Options img)) = 0"
      "ex_Height (Extract (Options img)) = 0"
    and rest: "Rotate (Options img) = 0" "\<not> Flip (Options img)" "\<not> Flop (Options img)"
      "Zoom (Options img) = 0" "\<not> shouldApplyEffects (Options img)"
      "wm_Text (Watermark (Options img)) = []"
      "spec_orientation_table (exif_orientation c) = (0, False)"
      "IsTypeSupported E (OutType (Options (applyDefaults E img)))"
  shows "Process_head E img = (None, applyDefaults E img)"
proof -
  let ?i = "applyDefaults E img"
  have i: "Image ?i = Some c"
    using img by (simp add: applyDefaults_frame)
  have rot: "Process_rotate E ?i = (None, ?i)"
    using rotateAndFlipImage_identity [OF i rest(7), of E] rest(1,2,3)
    by (simp add: Process_rotate_def applyDefaults_frame)
  have plan: "Process_plan E c (Options ?i) = ((1, 1, 1), Options ?i)"
    using size flags(1) by (intro Process_plan_at_size) (simp_all add: applyDefaults_frame)
  have sol: "Process_shrinkOnLoad E (1, 1, 1) ?i = ((None, 1, 1, 1), ?i)"
    by (simp add: Process_shrinkOnLoad_def)
  have zoom: "zoomImage E ?i = (None, ?i)"
    using rest(4) by (simp add: zoomImage_def applyDefaults_frame)
  have gate: "Process_transform E 1 1 ?i = (None, ?i)"
    using gate_closed [of "Options ?i" c] size flags
    by (simp add: Process_transform_def img applyDefaults_frame)
  have "shouldApplyEffects (Options ?i) = shouldApplyEffects (Options img)"
    by (simp add: shouldApplyEffects_def applyDefaults_frame)
  then have eff: "Process_effects E ?i = (None, ?i)"
    using rest(5) by (simp add: Process_effects_def)
  have wtext: "watermarkWithText E ?i = (None, ?i)"
    using rest(6) by (simp add: watermarkWithText_def applyDefaults_frame)
  show ?thesis
    using rest(8)
    by (simp add: Process_head_def Let_def andThen_def rot i plan sol zoom gate eff wtext
        del: spec_orientation_table.simps)
qed

text \<open>
  Claim C6.  For an image that is exactly at the requested size, with \<open>Crop\<close> set and none
  of \<open>Force\<close>, \<open>Enlarge\<close>, \<open>Trim\<close> and no extract region, \<open>shouldTransformImage\<close> is false, and
  the gated stage of \<open>Process\<close> returns nil and leaves the image as it is, the list of
  engine calls included.  When nothing else is asked for either (no rotation, flip, flop,
  zoom, effect or watermark, an EXIF orientation that needs neither rotation nor flip, a
  supported output type), the whole run reaches flatten and gamma with the image as
  \<open>applyDefaults\<close> left it: no stage before them called the engine.
\<close>

theorem C6_transform_gate:
  assumes "Image img = Some c"
    and "Width (Options img) = sint (Xsize c)" and "Height (Options img) = sint (Ysize c)"
    and "Crop (Options img)" and "\<not> Force (Options img)" and "\<not> Enlarge (Options img)"
    and "\<not> Trim (Options img)"
    and "ex_Width (Extract (Options img)) = 0" and "ex_Height (Extract (Options img)) = 0"
  shows "\<not> shouldTransformImage c (Options img)
       \<and> Process_transform E shrink residual img = (None, img)
       \<and> (Rotate (Options img) = 0 \<and> \<not> Flip (Options img) \<and> \<not> Flop (Options img)
            \<and> Zoom (Options img) = 0 \<and> \<not> shouldApplyEffects (Options img)
            \<and> wm_Text (Watermark (Options img)) = []
            \<and> wi_Buf (WatermarkImage (Options img)) = []
            \<and> spec_orientation_table (exif_orientation c) = (0, False)
            \<and> IsTypeSupported E (OutType (Options (applyDefaults E img)))
          \<longrightarrow> Process_head E img = (None, applyDefaults E img)
              \<and> Process (Suc n) E img = Some (Process_tail E (applyDefaults E img)))"
proof -
  have g: "\<not> shouldTransformImage c (Options img)"
    using assms(2-9) by (intro gate_closed)
  have t: "Process_transform E shrink residual img = (None, img)"
    using g assms(1) by (simp add: Process_transform_def)
  have run: "Process_head E img = (None, applyDefaults E img)
      \<and> Process (Suc n) E img = Some (Process_tail E (applyDefaults E img))"
    if r: "Rotate (Options img) = 0" "\<not> Flip (Options img)" "\<not> Flop (Options img)"
      "Zoom (Options img) = 0" "\<not> shouldApplyEffects (Options img)"
      "wm_Text (Watermark (Options img)) = []"
      "spec_orientation_table (exif_orientation c) = (0, False)"
      "IsTypeSupported E (OutType (Options (applyDefaults E img)))"
      and b: "wi_Buf (WatermarkImage (Options img)) = []"
  proof -
    have h: "Process_head E img = (None, applyDefaults E img)"
      using assms r by (intro Process_head_identity)
    have w: "watermarkWithImage (Process n E) E (applyDefaults E img)
               = Some (None, applyDefaults E img)"
      using b by (simp add: watermarkWithImage_def applyDefaults_frame)
    show ?thesis
      by (simp add: h w)
  qed
  from g t run show ?thesis
    by blast
qed

text \<open>
  Witness of C6: a 500 x 400 JPEG with the request 500 x 400 and \<open>Crop\<close>.  The gate is
  closed and the whole run makes no engine call.
\<close>

theorem C6_transform_gate_witness:
  "\<not> shouldTransformImage (sizedImage 500 400)
        (zeroOptions\<lparr>Width := 500, Height := 400, Crop := True\<rparr>)
   \<and> map_option (\<lambda>r. (fst r, Calls (snd r)))
        (Process 1 okEngine
           (loadedImage 500 400 0 (zeroOptions\<lparr>Width := 500, Height := 400, Crop := True\<rparr>)))
       = Some (None, [])"
proof -
  let ?o = "zeroOptions\<lparr>Width := 500, Height := 400, Crop := True\<rparr>"
  let ?c = "sizedImage 500 400"
  let ?i = "loadedImage 500 400 0 ?o"
  have i: "Image ?i = Some ?c"
    by (simp add: loadedImage_def sizedImage_def)
  have o: "Options ?i = ?o"
    by (simp add: loadedImage_def)
  have pre: "Width (Options ?i) = sint (Xsize ?c)" "Height (Options ?i) = sint (Ysize ?c)" "Crop (Options ?i)"
    "\<not> Force (Options ?i)" "\<not> Enlarge (Options ?i)" "\<not> Trim (Options ?i)"
    "ex_Width (Extract (Options ?i)) = 0" "ex_Height (Extract (Options ?i)) = 0"
    by (simp_all add: loadedImage_def zeroOptions_def sizedImage_def)
  have more: "Rotate (Options ?i) = 0 \<and> \<not> Flip (Options ?i) \<and> \<not> Flop (Options ?i)
      \<and> Zoom (Options ?i) = 0 \<and> \<not> shouldApplyEffects (Options ?i)
      \<and> wm_Text (Watermark (Options ?i)) = []
      \<and> wi_Buf (WatermarkImage (Options ?i)) = []
      \<and> spec_orientation_table (exif_orientation ?c) = (0, False)
      \<and> IsTypeSupported okEngine (OutType (Options (applyDefaults okEngine ?i)))"
    by (simp add: loadedImage_def zeroOptions_def sizedImage_def shouldApplyEffects_def
        applyDefaults_def okEngine_def IsTypeSupported_def)
  have tail: "Process_tail okEngine (applyDefaults okEngine ?i) = (None, applyDefaults okEngine ?i)"
    by (simp add: Process_tail_def andThen_def Flatten_def applyGamma_def applyDefaults_def
        loadedImage_def zeroOptions_def Let_def)
  from C6_transform_gate [OF i pre, of okEngine 1 1 0] more
  have "\<not> shouldTransformImage ?c (Options ?i)"
    and "Process (Suc 0) okEngine ?i = Some (Process_tail okEngine (applyDefaults okEngine ?i))"
    by blast+
  then show ?thesis
    by (simp add: o tail applyDefaults_frame) (simp add: loadedImage_def)
qed

text \<open>
  Claim C2: when the engine call of a stage reports an error, \<open>Process\<close> returns that error
  at once and runs no later stage.  The code breaks this at two stages.
  \<^item> Rotate and flip: \<open>rotateAndFlipImage\<close> assigns the results of the rotate call and of the
    flip calls to the same \<open>err\<close> without testing it in between.  With a rotation that fails
    and a flip that succeeds, the flip still runs, nil is returned, and \<open>Process\<close> goes on
    (it encodes the buffer and returns nil).
  \<^item> Trim: the error of \<open>vipsTrim\<close> is stored in a variable that shadows the returned one.
    With a trim search that fails, \<open>extractOrEmbedImage\<close> returns nil, and so does \<open>Process\<close>.
\<close>

theorem C2_stage_errors_lost:
  "fst (vipsRotate rotateFailsEngine 90
          (loadedImage 100 50 1 (zeroOptions\<lparr>Rotate := 90, Flip := True\<rparr>)))
     = Some (EngineError ''rotate failed'')
   \<and> rotateAndFlipImage rotateFailsEngine True
        (loadedImage 100 50 1 (zeroOptions\<lparr>Rotate := 90, Flip := True\<rparr>))
       = ((True, None),
          (loadedImage 100 50 1 (zeroOptions\<lparr>Rotate := 90, Flip := True\<rparr>))
            \<lparr>Calls := [OpRotate, OpFlip]\<rparr>)
   \<and> map_option (\<lambda>r. (fst r, Calls (snd r)))
        (Process 1 rotateFailsEngine
           (loadedImage 100 50 1 (zeroOptions\<lparr>Rotate := 90, Flip := True\<rparr>)))
       = Some (None, [OpRotate, OpFlip, OpSave])
   \<and> fst (vipsTrim trimFailsEngine zeroColor 0
          (loadedImage 100 50 1 (zeroOptions\<lparr>Trim := True\<rparr>)))
       = (0, 0, 0, 0, Some (EngineError ''trim failed''))
   \<and> extractOrEmbedImage trimFailsEngine (zeroOptions\<lparr>Trim := True\<rparr>)
        (loadedImage 100 50 1 (zeroOptions\<lparr>Trim := True\<rparr>))
       = ((None, None),
          (loadedImage 100 50 1 (zeroOptions\<lparr>Trim := True\<rparr>))\<lparr>Calls := [OpFindTrim]\<rparr>)
   \<and> map_option (\<lambda>r. (fst r, Calls (snd r)))
        (Process 1 trimFailsEngine (loadedImage 100 50 1 (zeroOptions\<lparr>Trim := True\<rparr>)))
       = Some (None, [OpResize, OpFindTrim])"
proof -
  have a: "fst (vipsRotate rotateFailsEngine 90
          (loadedImage 100 50 1 (zeroOptions\<lparr>Rotate := 90, Flip := True\<rparr>)))
     = Some (EngineError ''rotate failed'')"
    by code_simp
  have b: "rotateAndFlipImage rotateFailsEngine True
        (loadedImage 100 50 1 (zeroOptions\<lparr>Rotate := 90, Flip := True\<rparr>))
       = ((True, None),
          (loadedImage 100 50 1 (zeroOptions\<lparr>Rotate := 90, Flip := True\<rparr>))
            \<lparr>Calls := [OpRotate, OpFlip]\<rparr>)"
    by code_simp
  have c: "map_option (\<lambda>r. (fst r, Calls (snd r)))
        (Process 1 rotateFailsEngine
           (loadedImage 100 50 1 (zeroOptions\<lparr>Rotate := 90, Flip := True\<rparr>)))
       = Some (None, [OpRotate, OpFlip, OpSave])"
    by code_simp
  have d: "fst (vipsTrim trimFailsEngine zeroColor 0
          (loadedImage 100 50 1 (zeroOptions\<lparr>Trim := True\<rparr>)))
       = (0, 0, 0, 0, Some (EngineError ''trim failed''))"
    by code_simp
  have e: "extractOrEmbedImage trimFailsEngine (zeroOptions\<lparr>Trim := True\<rparr>)
        (loadedImage 100 50 1 (zeroOptions\<lparr>Trim := True\<rparr>))
       = ((None, None),
          (loadedImage 100 50 1 (zeroOptions\<lparr>Trim := True\<rparr>))\<lparr>Calls := [OpFindTrim]\<rparr>)"
    by code_simp
  have f: "map_option (\<lambda>r. (fst r, Calls (snd r)))
        (Process 1 trimFailsEngine (loadedImage 100 50 1 (zeroOptions\<lparr>Trim := True\<rparr>)))
       = Some (None, [OpResize, OpFindTrim])"
    by code_simp
  from a b c d e f show ?thesis
    by (intro conjI)
qed

text \<open>
  A consequence of the evaluation above: the run with the failing rotation returns nil,
  not the error of the rotation.
\<close>

theorem C2_stage_errors_lost_witness:
  "map_option fst
     (Process 1 rotateFailsEngine
        (loadedImage 100 50 1 (zeroOptions\<lparr>Rotate := 90, Flip := True\<rparr>)))
   = Some None"
proof -
  from C2_stage_errors_lost
  have "map_option (\<lambda>r. (fst r, Calls (snd r)))
        (Process 1 rotateFailsEngine
           (loadedImage 100 50 1 (zeroOptions\<lparr>Rotate := 90, Flip := True\<rparr>)))
       = Some (None, [OpRotate, OpFlip, OpSave])"
    by blast
  then show ?thesis
    by (cases "Process 1 rotateFailsEngine
        (loadedImage 100 50 1 (zeroOptions\<lparr>Rotate := 90, Flip := True\<rparr>))") auto
qed

section \<open>Properties of the method DSL\<close>

lemma Image_Metadata_never_returns: "Image_Metadata i = Some r \<Longrightarrow> False"
proof (rule Image_Metadata.raw_induct [where P = "\<lambda>_ _. False" and i = i and y = r])
  fix f :: "ImageDSL \<Rightarrow> (ImageMetadata \<times> error option) option" and x y
  assume "\<And>x y. f x = Some y \<Longrightarrow> False" and "f x = Some y"
  then show False by blast
qed

text \<open>
  Claim C10: \<open>Image.Metadata\<close> terminates and returns the metadata of its \<open>VipsImage\<close>, and
  so does \<open>Image.Size\<close>.  On the code \<open>Image.Metadata\<close> calls itself and nothing else, so for
  every receiver the call never returns, and neither does \<open>Image.Size\<close>, which starts by
  calling it.
\<close>

theorem C10_Metadata_never_returns:
  "Image_Metadata i = None \<and> Image_Size i = None"
proof -
  have "Image_Metadata i = None"
    using Image_Metadata_never_returns [of i] by (cases "Image_Metadata i") auto
  then show ?thesis
    by (simp add: Image_Size_def)
qed

section \<open>The depth of the nested run\<close>

text \<open>
  No stage of \<open>Process\<close> writes \<open>Options.WatermarkImage\<close>.  The run that \<open>vipsDrawWatermark\<close>
  starts on the watermark has an empty watermark buffer in its options, so it starts no
  further run: depth 2 is enough for every input, every run returns, and a larger bound
  changes nothing.
\<close>

lemma bridgeCall_Options [simp]: "Options (snd (bridgeCall op f c img)) = Options img"
  by (simp add: bridgeCall_def Let_def split: sum.splits)

lemma wrappers_Options [simp]:
  "Options (snd (vipsRotate E a img)) = Options img"
  "Options (snd (vipsFlip E d img)) = Options img"
  "Options (snd (vipsZoom E z img)) = Options img"
  "Options (snd (vipsWatermark E w img)) = Options img"
  "Options (snd (vipsFlattenBackground E bg img)) = Options img"
  "Options (snd (getImageBuffer E img)) = Options img"
  "Options (snd (vipsExtract E l t w' h img)) = Options img"
  "Options (snd (vipsSmartCrop E wi hi img)) = Options img"
  "Options (snd (vipsTrim E bg th img)) = Options img"
  "Options (snd (vipsShrinkJpeg E n img)) = Options img"
  "Options (snd (vipsShrinkWebp E n img)) = Options img"
  "Options (snd (vipsShrink E n img)) = Options img"
  "Options (snd (vipsResize E sc i img)) = Options img"
  "Options (snd (vipsEmbed E l' t' wi hi ex bg img)) = Options img"
  "Options (snd (vipsGaussianBlur E g img)) = Options img"
  "Options (snd (vipsSharpen E sh img)) = Options img"
  "Options (snd (vipsGamma E ga img)) = Options img"
  by (simp_all add: vipsRotate_def vipsFlip_def vipsZoom_def vipsWatermark_def
      vipsFlattenBackground_def vipsHasAlpha_def getImageBuffer_def vipsExtract_def
      vipsSmartCrop_def vipsTrim_def vipsShrinkJpeg_def vipsShrinkWebp_def vipsShrink_def
      vipsResize_def vipsEmbed_def vipsGaussianBlur_def vipsSharpen_def vipsGamma_def Let_def
      split: option.splits sum.splits prod.splits)

lemma ScaleFactor_wmi [simp]: "WatermarkImage (snd (ScaleFactor c opts)) = WatermarkImage opts"
  by (simp add: ScaleFactor_def Let_def)

lemma calculateShrink_wmi [simp]: "WatermarkImage (snd (calculateShrink E c opts)) = WatermarkImage opts"
  by (simp add: calculateShrink_def Let_def split_beta)

lemma calculateResidual_wmi [simp]: "WatermarkImage (snd (calculateResidual E c opts)) = WatermarkImage opts"
  by (simp add: calculateResidual_def Let_def split_beta)

lemma Process_plan_wmi [simp]: "WatermarkImage (snd (Process_plan E c opts)) = WatermarkImage opts"
  by (simp add: Process_plan_def Let_def split_beta normalizeOperation_def)

lemma rotateAndFlipImage_wmi [simp]:
  "WatermarkImage (Options (snd (rotateAndFlipImage E a img))) = WatermarkImage (Options img)"
  by (simp add: rotateAndFlipImage_def Let_def split_beta split: option.splits)

lemma Process_rotate_wmi [simp]:
  "WatermarkImage (Options (snd (Process_rotate E img))) = WatermarkImage (Options img)"
proof -
  obtain r e i where x: "rotateAndFlipImage E True img = ((r, e), i)"
    by (metis surj_pair)
  have i: "WatermarkImage (Options i) = WatermarkImage (Options img)"
    using rotateAndFlipImage_wmi [of E True img] x by simp
  obtain b e' j where y: "getImageBuffer E i = ((b, e'), j)"
    by (metis surj_pair)
  have j: "Options j = Options i"
    using wrappers_Options(6) [of E i] y by simp
  show ?thesis
    by (simp add: Process_rotate_def x y i j split: option.splits)
qed

lemma shrinkOnLoad_wmi [simp]:
  "WatermarkImage (Options (snd (shrinkOnLoad E img))) = WatermarkImage (Options img)"
  by (simp add: shrinkOnLoad_def Let_def split_beta split: option.splits)

lemma Process_shrinkOnLoad_wmi [simp]:
  "WatermarkImage (Options (snd (Process_shrinkOnLoad E plan img))) = WatermarkImage (Options img)"
  by (simp add: Process_shrinkOnLoad_def Let_def split_beta split: option.splits)

lemma zoomImage_wmi [simp]:
  "WatermarkImage (Options (snd (zoomImage E img))) = WatermarkImage (Options img)"
  by (simp add: zoomImage_def)

lemma shrinkImage_Options [simp]:
  "Options (snd (shrinkImage E opts r n img)) = Options img"
  by (simp add: shrinkImage_def Let_def split_beta split: option.splits)

lemma extractOrEmbedImage_Options [simp]:
  "Options (snd (extractOrEmbedImage E opts img)) = Options img"
proof (cases "Image img")
  case None
  then show ?thesis by (simp add: extractOrEmbedImage_def)
next
  case (Some c)
  show ?thesis
    unfolding extractOrEmbedImage_def Some option.case Let_def
    by (simp add: split_beta split: option.splits)
qed

lemma transformImage_wmi [simp]:
  "WatermarkImage (Options (snd (transformImage E n r img))) = WatermarkImage (Options img)"
proof -
  let ?w = "WatermarkImage (Options img)"
  obtain r1 e1 img1 where s: "(if n > 1 then shrinkImage E (Options img) r n img
            else ((r, None), img)) = ((r1, e1), img1)"
    by (metis surj_pair)
  have "img1 = snd (if n > 1 then shrinkImage E (Options img) r n img else ((r, None), img))"
    by (simp only: s snd_conv)
  then have o1: "Options img1 = Options img"
    by simp
  show ?thesis
  proof (cases e1)
    case (Some err)
    then show ?thesis using s o1 by (simp add: transformImage_def)
  next
    case None
    obtain e2 img2 where z: "(if Force (Options img1) \<or> r1 \<noteq> 0
                 then vipsResize E r1 (Interpolator (Options img1)) img1
                 else (None, img1)) = (e2, img2)"
      by (metis surj_pair)
    have "img2 = snd (if Force (Options img1) \<or> r1 \<noteq> 0
                 then vipsResize E r1 (Interpolator (Options img1)) img1
                 else (None, img1))"
      by (simp only: z snd_conv)
    then have o2: "Options img2 = Options img"
      using o1 by simp
    show ?thesis
    proof (cases e2)
      case (Some err)
      then show ?thesis using s z None o2 by (simp add: transformImage_def)
    next
      case n2: None
      let ?img3 = "(if Force (Options img2)
                     then img2\<lparr>Options := (Options img2)\<lparr>Crop := False, Embed := False\<rparr>\<rparr>
                     else img2)"
      have o3: "WatermarkImage (Options ?img3) = ?w"
        using o2 by simp
      obtain i e4 img4 where x: "extractOrEmbedImage E (Options ?img3) ?img3 = ((i, e4), img4)"
        by (metis surj_pair)
      have "img4 = snd (extractOrEmbedImage E (Options ?img3) ?img3)"
        by (simp only: x snd_conv)
      then have o4: "WatermarkImage (Options img4) = ?w"
        using o3 by (simp only: extractOrEmbedImage_Options)
      have "transformImage E n r img =
          (case ((i, e4), img4) of
             ((_, Some err), img4) \<Rightarrow> (Some err, img4)
           | ((None, None), img4) \<Rightarrow> (None, img4)
           | ((Some i, None), img4) \<Rightarrow>
               if length (Buffer i) > 0
               then (None, img4\<lparr>Image := Image i, Buffer := Buffer i\<rparr>)
               else (None, img4))"
        by (simp only: transformImage_def s z None n2 Let_def prod.case option.case x)
      then show ?thesis
        using o4 by (cases e4; cases i) simp_all
    qed
  qed
qed

lemma Process_transform_wmi [simp]:
  "WatermarkImage (Options (snd (Process_transform E n r img))) = WatermarkImage (Options img)"
  by (simp add: Process_transform_def split: option.splits)

lemma Process_effects_wmi [simp]:
  "WatermarkImage (Options (snd (Process_effects E img))) = WatermarkImage (Options img)"
  by (simp add: Process_effects_def applyEffects_def split_beta split: option.splits)

lemma watermarkWithText_wmi [simp]:
  "WatermarkImage (Options (snd (watermarkWithText E img))) = WatermarkImage (Options img)"
  by (simp add: watermarkWithText_def Let_def split: option.splits)

lemma andThen_wmi:
  assumes "WatermarkImage (Options (snd r)) = w"
    and "\<And>i. WatermarkImage (Options i) = w \<Longrightarrow> WatermarkImage (Options (snd (f i))) = w"
  shows "WatermarkImage (Options (snd (andThen r f))) = w"
  using assms by (cases r) (auto simp: andThen_def split: option.splits)

lemma Process_head_wmi:
  "WatermarkImage (Options (snd (Process_head E img))) = WatermarkImage (Options img)"
proof -
  let ?w = "WatermarkImage (Options img)"
  let ?i = "applyDefaults E img"
  have i: "WatermarkImage (Options ?i) = ?w"
    by (simp add: applyDefaults_frame)
  have rest: "WatermarkImage (Options (snd
      (case Image img1 of
         None \<Rightarrow> (Some Panic, img1)
       | Some c \<Rightarrow>
           (case Process_plan E c (Options img1) of
              (plan, opts) \<Rightarrow>
                (case Process_shrinkOnLoad E plan (img1\<lparr>Options := opts\<rparr>) of
                   ((Some err, _), img2) \<Rightarrow> (Some err, img2)
                 | ((None, factor, shrink, residual), img2) \<Rightarrow>
                     andThen (zoomImage E img2) (\<lambda>img3.
                     andThen (Process_transform E shrink residual img3) (\<lambda>img4.
                     andThen (Process_effects E img4) (\<lambda>img5.
                     watermarkWithText E img5)))))))) = ?w"
    if a: "WatermarkImage (Options img1) = ?w" for img1
  proof (cases "Image img1")
    case None
    then show ?thesis using a by simp
  next
    case (Some c)
    obtain plan opts where p: "Process_plan E c (Options img1) = (plan, opts)"
      by (metis surj_pair)
    have o: "WatermarkImage opts = ?w"
      using Process_plan_wmi [of E c "Options img1"] p a by simp
    obtain e f s r img2 where q:
      "Process_shrinkOnLoad E plan (img1\<lparr>Options := opts\<rparr>) = ((e, f, s, r), img2)"
      by (metis surj_pair)
    have i2: "WatermarkImage (Options img2) = ?w"
      using Process_shrinkOnLoad_wmi [of E plan "img1\<lparr>Options := opts\<rparr>"] q o by simp
    have chain: "WatermarkImage (Options (snd
        (andThen (zoomImage E img2) (\<lambda>img3.
         andThen (Process_transform E s r img3) (\<lambda>img4.
         andThen (Process_effects E img4) (\<lambda>img5.
         watermarkWithText E img5)))))) = ?w"
      by (intro andThen_wmi) (simp_all add: i2)
    show ?thesis
      using chain i2 by (cases e) (simp_all add: Some p q)
  qed
  have "WatermarkImage (Options (snd (andThen (Process_rotate E ?i) (\<lambda>img1.
      case Image img1 of
         None \<Rightarrow> (Some Panic, img1)
       | Some c \<Rightarrow>
           (case Process_plan E c (Options img1) of
              (plan, opts) \<Rightarrow>
                (case Process_shrinkOnLoad E plan (img1\<lparr>Options := opts\<rparr>) of
                   ((Some err, _), img2) \<Rightarrow> (Some err, img2)
                 | ((None, factor, shrink, residual), img2) \<Rightarrow>
                     andThen (zoomImage E img2) (\<lambda>img3.
                     andThen (Process_transform E shrink residual img3) (\<lambda>img4.
                     andThen (Process_effects E img4) (\<lambda>img5.
                     watermarkWithText E img5))))))))) = ?w"
    by (rule andThen_wmi) (simp add: i, rule rest)
  then show ?thesis
    using i by (simp add: Process_head_def Let_def)
qed

lemma NewVipsImage_Options:
  assumes "NewVipsImage E buf opt calls = ((Some wm, None), calls')"
  shows "Options wm = opt"
  using assms
  by (auto simp: NewVipsImage_def Let_def split: prod.splits option.splits)

lemma Process_no_watermark:
  assumes "wi_Buf (WatermarkImage (Options img)) = []"
  shows "Process (Suc n) E img =
           (case Process_head E img of
              (Some err, img1) \<Rightarrow> Some (Some err, img1)
            | (None, img1) \<Rightarrow> Some (Process_tail E img1))"
proof -
  obtain e img1 where h: "Process_head E img = (e, img1)"
    by (metis surj_pair)
  have "img1 = snd (Process_head E img)"
    by (simp only: h snd_conv)
  then have "wi_Buf (WatermarkImage (Options img1)) = []"
    using assms by (simp only: Process_head_wmi)
  then have "watermarkWithImage (Process n E) E img1 = Some (None, img1)"
    by (simp add: watermarkWithImage_def)
  then show ?thesis
    by (cases e) (simp_all add: h)
qed

lemma vipsDrawWatermark_nested:
  assumes "\<And>wm. wi_Buf (WatermarkImage (Options wm)) = [] \<Longrightarrow> p wm = q wm"
  shows "vipsDrawWatermark p E w img = vipsDrawWatermark q E w img"
proof (cases "Image img")
  case None
  then show ?thesis by (simp add: vipsDrawWatermark_def)
next
  case (Some c)
  let ?o = "zeroOptions
                 \<lparr>Width := (if wi_Relative w
                             then go_int (f32 (float32 (sint (Xsize c)) * f32 (wi_Width w / 100)))
                             else go_int (wi_Width w)),
                  Force := False, MaintainAspect := True, Enlarge := False,
                  Background := ColorBlack E\<rparr>"
  obtain r e calls where n: "NewVipsImage E (wi_Buf w) ?o (Calls img) = ((r, e), calls)"
    by (metis surj_pair)
  show ?thesis
  proof (cases e)
    case (Some err)
    then show ?thesis
      using n \<open>Image img = Some c\<close> by (cases r) (simp_all add: vipsDrawWatermark_def Let_def)
  next
    case None
    show ?thesis
    proof (cases r)
      case None
      then show ?thesis
        using n \<open>e = None\<close> \<open>Image img = Some c\<close> by (simp add: vipsDrawWatermark_def Let_def)
    next
      case (Some wm)
      have "Options wm = ?o"
        using n \<open>e = None\<close> Some by (intro NewVipsImage_Options) simp
      then have "wi_Buf (WatermarkImage (Options wm)) = []"
        by (simp add: zeroOptions_def)
      then have "p wm = q wm"
        by (rule assms)
      then show ?thesis
        using n \<open>e = None\<close> Some \<open>Image img = Some c\<close>
        by (simp add: vipsDrawWatermark_def Let_def)
    qed
  qed
qed

lemma Process_fuel:
  "Process (Suc (Suc n)) E img = Process (Suc (Suc 0)) E img"
proof -
  have same: "Process (Suc n) E wm = Process (Suc 0) E wm"
    if "wi_Buf (WatermarkImage (Options wm)) = []" for wm
    using that by (simp only: Process_no_watermark)
  have eq: "watermarkWithImage (Process (Suc n) E) E i
            = watermarkWithImage (Process (Suc 0) E) E i" for i
    unfolding watermarkWithImage_def Let_def
    using vipsDrawWatermark_nested [of "Process (Suc n) E" "Process (Suc 0) E", OF same]
    by simp
  show ?thesis
    by (simp only: Process.simps(2) [of "Suc n"] Process.simps(2) [of "Suc 0"] eq)
qed

lemma Process_returns: "\<exists>r. Process (Suc (Suc n)) E img = Some r"
proof -
  obtain e img1 where h: "Process_head E img = (e, img1)"
    by (metis surj_pair)
  have nested: "\<exists>r. Process (Suc n) E wm = Some r"
    if "wi_Buf (WatermarkImage (Options wm)) = []" for wm
    by (subst Process_no_watermark [OF that]) (auto split: prod.splits option.splits)
  have draw: "\<exists>r. vipsDrawWatermark (Process (Suc n) E) E w i = Some r" for w i
  proof (cases "Image i")
    case None
    then show ?thesis by (simp add: vipsDrawWatermark_def)
  next
    case (Some c)
    let ?o = "zeroOptions
                 \<lparr>Width := (if wi_Relative w
                             then go_int (f32 (float32 (sint (Xsize c)) * f32 (wi_Width w / 100)))
                             else go_int (wi_Width w)),
                  Force := False, MaintainAspect := True, Enlarge := False,
                  Background := ColorBlack E\<rparr>"
    obtain r e calls where n: "NewVipsImage E (wi_Buf w) ?o (Calls i) = ((r, e), calls)"
      by (metis surj_pair)
    show ?thesis
    proof (cases e)
      case (Some err)
      then show ?thesis
        using n \<open>Image i = Some c\<close> by (cases r) (simp_all add: vipsDrawWatermark_def Let_def)
    next
      case None
      show ?thesis
      proof (cases r)
        case None
        then show ?thesis
          using n \<open>e = None\<close> \<open>Image i = Some c\<close> by (simp add: vipsDrawWatermark_def Let_def)
      next
        case (Some wm)
        have "Options wm = ?o"
          using n \<open>e = None\<close> Some by (intro NewVipsImage_Options) simp
        then have "wi_Buf (WatermarkImage (Options wm)) = []"
          by (simp add: zeroOptions_def)
        then obtain res where "Process (Suc n) E wm = Some res"
          using nested by blast
        then show ?thesis
          using n \<open>e = None\<close> Some \<open>Image i = Some c\<close>
          by (cases res; cases "fst res")
             (simp_all add: vipsDrawWatermark_def Let_def split: option.splits)
      qed
    qed
  qed
  have wmk: "\<exists>r. watermarkWithImage (Process (Suc n) E) E i = Some r" for i
    using draw by (simp add: watermarkWithImage_def Let_def)
  show ?thesis
  proof (cases e)
    case (Some err)
    then show ?thesis by (simp add: h)
  next
    case None
    obtain res where "watermarkWithImage (Process (Suc n) E) E img1 = Some res"
      using wmk by blast
    then show ?thesis
      using None by (cases res; cases "fst res") (simp_all add: h)
  qed
qed


end
